theory Spec2Isabelle
  imports Main "HOL-Library.Product_Lexorder"
begin

section \<open>Tokens and the host's token stream\<close>

text \<open>
  A token as the tokenizer produces it: \<open>type\<close>, \<open>value\<close> (the token's text) and
  \<open>range = [start, end]\<close>, the offsets of the token in the source text. Offsets
  are JavaScript numbers; the rules subtract them, so they are integers here and the
  difference may be negative.
\<close>

record token =
  tok_type :: string
  tok_value :: string
  tok_range :: "int \<times> int"

text \<open>
  Modelled from the spec: the host's token-stream accessor (\<open>sourceCode\<close>) is not
  part of the repository. The stream is the list of tokens in source order;
  \<open>getFirstToken\<close> is the first token inside a node's range that satisfies the
  filter, \<open>getTokenBefore\<close> the last one that ends at or before the start of the
  node or token, \<open>getTokenAfter\<close> the first one that starts at or after its end;
  each is absent (\<open>None\<close>, JavaScript's \<open>null\<close>) when there is no such token.
\<close>

type_synonym sourceCode = "token list"

definition getFirstToken :: "sourceCode \<Rightarrow> int \<times> int \<Rightarrow> (token \<Rightarrow> bool) \<Rightarrow> token option" where
  "getFirstToken toks r p =
     find (\<lambda>t. fst r \<le> fst (tok_range t) \<and> snd (tok_range t) \<le> snd r \<and> p t) toks"

definition getTokenBefore :: "sourceCode \<Rightarrow> int \<times> int \<Rightarrow> (token \<Rightarrow> bool) \<Rightarrow> token option" where
  "getTokenBefore toks r p =
     find (\<lambda>t. snd (tok_range t) \<le> fst r \<and> p t) (rev toks)"

definition getTokenAfter :: "sourceCode \<Rightarrow> int \<times> int \<Rightarrow> (token \<Rightarrow> bool) \<Rightarrow> token option" where
  "getTokenAfter toks r p =
     find (\<lambda>t. snd r \<le> fst (tok_range t) \<and> p t) toks"

definition anyToken :: "token \<Rightarrow> bool" where
  "anyToken t = True"

text \<open>A thrown JavaScript exception (reading a property of \<open>null\<close>, calling \<open>undefined\<close>).\<close>

datatype error = TypeError

section \<open>generator-star-spacing\<close>

subsection \<open>Option resolution\<close>

record SpacingPolicy =
  before :: bool
  after :: bool

datatype option_name = OptBefore | OptAfter | OptBoth | OptNeither

text \<open>
  An option value as the schema admits it: a shorthand string, or an object with the
  optional fields \<open>before\<close>, \<open>after\<close>, \<open>named\<close>, \<open>anonymous\<close>, \<open>method\<close>
  (an absent field is \<open>None\<close>). The per-kind overrides have the same two forms.
\<close>

datatype option_value =
  Str option_name
| Obj (obj_before: "bool option") (obj_after: "bool option")
      (obj_named: "option_value option") (obj_anonymous: "option_value option")
      (obj_method: "option_value option")

fun optionDefinitions :: "option_name \<Rightarrow> SpacingPolicy" where
  "optionDefinitions OptBefore = \<lparr>before = True, after = False\<rparr>"
| "optionDefinitions OptAfter = \<lparr>before = False, after = True\<rparr>"
| "optionDefinitions OptBoth = \<lparr>before = True, after = True\<rparr>"
| "optionDefinitions OptNeither = \<lparr>before = False, after = False\<rparr>"

text \<open>
  \<open>optionToDefinition(option, defaults)\<close>: the defaults when the option is absent,
  the table entry for a string, and \<open>Object.assign({}, defaults, option)\<close> for an
  object: every field the object has replaces the default. Only \<open>before\<close> and
  \<open>after\<close> of the result are ever read, so the result keeps those two.
\<close>

fun optionToDefinition :: "option_value option \<Rightarrow> SpacingPolicy \<Rightarrow> SpacingPolicy" where
  "optionToDefinition None defaults = defaults"
| "optionToDefinition (Some (Str s)) defaults = optionDefinitions s"
| "optionToDefinition (Some (Obj b a n an m)) defaults =
     \<lparr>before = (case b of None \<Rightarrow> before defaults | Some v \<Rightarrow> v),
      after = (case a of None \<Rightarrow> after defaults | Some v \<Rightarrow> v)\<rparr>"

text \<open>Reading \<open>option.named\<close> etc.: a string has no such property.\<close>

fun option_named :: "option_value \<Rightarrow> option_value option" where
  "option_named (Str s) = None"
| "option_named (Obj b a n an m) = n"

fun option_anonymous :: "option_value \<Rightarrow> option_value option" where
  "option_anonymous (Str s) = None"
| "option_anonymous (Obj b a n an m) = an"

fun option_method :: "option_value \<Rightarrow> option_value option" where
  "option_method (Str s) = None"
| "option_method (Obj b a n an m) = m"

text \<open>The resolved modes, one policy per kind (\<open>method_mode\<close> is the source's \<open>method\<close>).\<close>

record modes_t =
  named :: SpacingPolicy
  anonymous :: SpacingPolicy
  method_mode :: SpacingPolicy

definition globalDefaults :: "option_value \<Rightarrow> SpacingPolicy" where
  "globalDefaults option = optionToDefinition (Some option) (optionDefinitions OptBefore)"

text \<open>
  \<open>modes\<close> is computed in \<open>create\<close> from \<open>context.options[0] || {}\<close>, once; the
  visitor callbacks below take the resolved value as an argument.
\<close>

definition modes :: "option_value option \<Rightarrow> modes_t" where
  "modes options0 =
     (let option = (case options0 of None \<Rightarrow> Obj None None None None None | Some v \<Rightarrow> v);
          defaults = globalDefaults option
      in \<lparr>named = optionToDefinition (option_named option) defaults,
          anonymous = optionToDefinition (option_anonymous option) defaults,
          method_mode = optionToDefinition (option_method option) defaults\<rparr>)"

datatype kind = Named | Anonymous | Method

fun modes_at :: "modes_t \<Rightarrow> kind \<Rightarrow> SpacingPolicy" where
  "modes_at ms Named = named ms"
| "modes_at ms Anonymous = anonymous ms"
| "modes_at ms Method = method_mode ms"

datatype side = Before | After

fun policy_at :: "SpacingPolicy \<Rightarrow> side \<Rightarrow> bool" where
  "policy_at p Before = before p"
| "policy_at p After = after p"

text \<open>The option object with the override of one kind replaced.\<close>

fun with_override :: "kind \<Rightarrow> option_value option \<Rightarrow> option_value \<Rightarrow> option_value" where
  "with_override k v (Str s) = Str s"
| "with_override Named v (Obj b a n an m) = Obj b a v an m"
| "with_override Anonymous v (Obj b a n an m) = Obj b a n v m"
| "with_override Method v (Obj b a n an m) = Obj b a n an v"

fun override_of :: "kind \<Rightarrow> option_value \<Rightarrow> option_value option" where
  "override_of Named option = option_named option"
| "override_of Anonymous option = option_anonymous option"
| "override_of Method option = option_method option"

subsection \<open>The star token and the function node\<close>

definition isStarToken :: "token \<Rightarrow> bool" where
  "isStarToken t = (tok_value t = ''*'' \<and> tok_type t = ''Punctuator'')"

text \<open>
  What the rule reads of a function node and of its parent: the parent's \<open>type\<close>,
  its \<open>method\<close> property (\<open>None\<close> when the parent has no such property) and its
  range; the function's \<open>generator\<close> flag, whether it has an \<open>id\<close>, and its range.
\<close>

record parent_node =
  p_type :: string
  p_method :: "bool option"
  p_range :: "int \<times> int"

record function_node =
  generator :: bool
  has_id :: bool
  f_range :: "int \<times> int"
  parent :: parent_node

definition getStarToken :: "sourceCode \<Rightarrow> function_node \<Rightarrow> token option" where
  "getStarToken toks node =
     getFirstToken toks
       (if p_method (parent node) = Some True \<or> p_type (parent node) = ''MethodDefinition''
        then p_range (parent node) else f_range node)
       isStarToken"

text \<open>\<open>String.prototype.toUpperCase\<close> on one character, for the ASCII letters.\<close>

definition toUpperCase :: "char \<Rightarrow> char" where
  "toUpperCase c =
     (let n = (of_char c :: nat) in if 97 \<le> n \<and> n \<le> 122 then char_of (n - 32) else c)"

text \<open>\<open>str[0].toUpperCase() + str.slice(1)\<close>; \<open>str[0]\<close> of the empty string is \<open>undefined\<close>.\<close>

fun capitalize :: "string \<Rightarrow> error + string" where
  "capitalize [] = Inl TypeError"
| "capitalize (c # cs) = Inr (toUpperCase c # cs)"

fun side_name :: "side \<Rightarrow> string" where
  "side_name Before = ''before''"
| "side_name After = ''after''"

subsection \<open>Reports\<close>

text \<open>
  The fixer call a report's \<open>fix\<close> function makes, and the report handed to
  \<open>context.report\<close>: the token the report is located at, the message id and the fix.
\<close>

datatype fixer_call =
  insertTextAfter token string
| insertTextBefore token string
| removeRange int int

record report =
  report_node :: token
  messageId :: string
  fixer :: fixer_call

text \<open>
  A call that may throw, followed by another: the reports of both, or the first
  exception.
\<close>

definition and_then :: "error + 'a list \<Rightarrow> error + 'a list \<Rightarrow> error + 'a list" where
  "and_then r1 r2 =
     (case r1 of Inl e \<Rightarrow> Inl e
      | Inr xs \<Rightarrow> (case r2 of Inl e \<Rightarrow> Inl e | Inr ys \<Rightarrow> Inr (xs @ ys)))"

subsection \<open>checkSpacing and checkFunction\<close>

text \<open>
  \<open>checkSpacing(kind, side, leftToken, rightToken)\<close>. The tokens come from lookups
  that may find nothing; reading \<open>range\<close> of \<open>null\<close> throws. \<open>!!(n)\<close> of a number
  is \<open>n \<noteq> 0\<close>.
\<close>

definition checkSpacing ::
  "modes_t \<Rightarrow> kind \<Rightarrow> side \<Rightarrow> token option \<Rightarrow> token option \<Rightarrow> error + report list" where
  "checkSpacing ms kind side leftToken rightToken =
     (case rightToken of None \<Rightarrow> Inl TypeError | Some rt \<Rightarrow>
      (case leftToken of None \<Rightarrow> Inl TypeError | Some lt \<Rightarrow>
        if (fst (tok_range rt) - snd (tok_range lt) \<noteq> 0) \<noteq> policy_at (modes_at ms kind) side then
          (let after = (tok_value lt = ''*'');
               spaceRequired = policy_at (modes_at ms kind) side;
               node = (if after then lt else rt)
           in (case capitalize (side_name side) of Inl e \<Rightarrow> Inl e
              | Inr cap \<Rightarrow>
                  Inr [\<lparr>report_node = node,
                        messageId = (if spaceRequired then ''missing'' else ''unexpected'') @ cap,
                        fixer = (if spaceRequired
                                 then (if after then insertTextAfter node '' ''
                                       else insertTextBefore node '' '')
                                 else removeRange (snd (tok_range lt)) (fst (tok_range rt)))\<rparr>]))
        else Inr []))"

definition kind_of :: "function_node \<Rightarrow> kind" where
  "kind_of node =
     (if p_type (parent node) = ''MethodDefinition''
         \<or> (p_type (parent node) = ''Property'' \<and> p_method (parent node) = Some True)
      then Method
      else if \<not> has_id node then Anonymous
      else Named)"

definition checkFunction :: "sourceCode \<Rightarrow> modes_t \<Rightarrow> function_node \<Rightarrow> error + report list" where
  "checkFunction toks ms node =
     (if \<not> generator node then Inr []
      else (case getStarToken toks node of None \<Rightarrow> Inl TypeError | Some starToken \<Rightarrow>
        (let prevToken = getTokenBefore toks (tok_range starToken) anyToken;
             nextToken = getTokenAfter toks (tok_range starToken) anyToken;
             kind = kind_of node
         in and_then
              (if \<not> (kind = Method
                      \<and> Some starToken = getFirstToken toks (p_range (parent node)) anyToken)
               then checkSpacing ms kind Before prevToken (Some starToken)
               else Inr [])
              (checkSpacing ms kind After (Some starToken) nextToken))))"

section \<open>arrow-spacing\<close>

text \<open>
  The rule's option object (\<open>before\<close> and \<open>after\<close>, each optional) and the merge
  with the defaults: \<open>rule.before = rule.before !== false\<close>.
\<close>

record arrow_options =
  opt_before :: "bool option"
  opt_after :: "bool option"

definition arrow_rule :: "arrow_options option \<Rightarrow> SpacingPolicy" where
  "arrow_rule options0 =
     (case options0 of
        None \<Rightarrow> \<lparr>before = True, after = True\<rparr>
      | Some opts \<Rightarrow> \<lparr>before = (opt_before opts \<noteq> Some False), after = (opt_after opts \<noteq> Some False)\<rparr>)"

text \<open>Modelled from the spec: \<open>isArrowToken\<close> of the shared utilities, the \<open>=>\<close> punctuator.\<close>

definition isArrowToken :: "token \<Rightarrow> bool" where
  "isArrowToken t = (tok_value t = ''=>'' \<and> tok_type t = ''Punctuator'')"

text \<open>Of the arrow function node the rule reads the range of its body.\<close>

record arrow_node =
  body_range :: "int \<times> int"

record arrow_tokens =
  t_before :: "token option"
  t_arrow :: token
  t_after :: "token option"

definition getTokens :: "sourceCode \<Rightarrow> arrow_node \<Rightarrow> error + arrow_tokens" where
  "getTokens toks node =
     (case getTokenBefore toks (body_range node) isArrowToken of
        None \<Rightarrow> Inl TypeError
      | Some arrow \<Rightarrow>
          Inr \<lparr>t_before = getTokenBefore toks (tok_range arrow) anyToken,
               t_arrow = arrow,
               t_after = getTokenAfter toks (tok_range arrow) anyToken\<rparr>)"

definition countSpaces :: "arrow_tokens \<Rightarrow> error + (int \<times> int)" where
  "countSpaces tokens =
     (case t_before tokens of None \<Rightarrow> Inl TypeError | Some b \<Rightarrow>
      (case t_after tokens of None \<Rightarrow> Inl TypeError | Some a \<Rightarrow>
        Inr (fst (tok_range (t_arrow tokens)) - snd (tok_range b),
             fst (tok_range a) - snd (tok_range (t_arrow tokens)))))"

text \<open>
  The two halves of \<open>spaces\<close>, for tokens that are all present with the counts
  \<open>countSpaces\<close> computed.
\<close>

definition spaces_before :: "SpacingPolicy \<Rightarrow> token \<Rightarrow> token \<Rightarrow> int \<Rightarrow> report list" where
  "spaces_before rule b arrow n =
     (if before rule then
        (if n = 0 then
           [\<lparr>report_node = b, messageId = ''expectedBefore'', fixer = insertTextBefore arrow '' ''\<rparr>]
         else [])
      else
        (if n > 0 then
           [\<lparr>report_node = b, messageId = ''unexpectedBefore'',
             fixer = removeRange (snd (tok_range b)) (fst (tok_range arrow))\<rparr>]
         else []))"

definition spaces_after :: "SpacingPolicy \<Rightarrow> token \<Rightarrow> token \<Rightarrow> int \<Rightarrow> report list" where
  "spaces_after rule arrow a n =
     (if after rule then
        (if n = 0 then
           [\<lparr>report_node = a, messageId = ''expectedAfter'', fixer = insertTextAfter arrow '' ''\<rparr>]
         else [])
      else
        (if n > 0 then
           [\<lparr>report_node = a, messageId = ''unexpectedAfter'',
             fixer = removeRange (snd (tok_range arrow)) (fst (tok_range a))\<rparr>]
         else []))"

definition spaces :: "SpacingPolicy \<Rightarrow> sourceCode \<Rightarrow> arrow_node \<Rightarrow> error + report list" where
  "spaces rule toks node =
     (case getTokens toks node of Inl e \<Rightarrow> Inl e | Inr tokens \<Rightarrow>
      (case countSpaces tokens of Inl e \<Rightarrow> Inl e | Inr countSpace \<Rightarrow>
      (case t_before tokens of None \<Rightarrow> Inl TypeError | Some b \<Rightarrow>
      (case t_after tokens of None \<Rightarrow> Inl TypeError | Some a \<Rightarrow>
        Inr (spaces_before rule b (t_arrow tokens) (fst countSpace)
             @ spaces_after rule (t_arrow tokens) a (snd countSpace))))))"

section \<open>no-extra-parens\<close>

subsection \<open>Nodes and the base rule\<close>

text \<open>
  Of an operand the overrides read the \<open>type\<close> and, for token lookups, the range.
  A spread copy with a new \<open>type\<close> keeps every other field.
\<close>

record node =
  n_type :: string
  n_range :: "int \<times> int"

text \<open>
  Modelled from the spec: \<open>isTypeAssertion\<close> and \<open>isOpeningParenToken\<close> come from the
  utilities of the TypeScript parser's tooling, not from the repository. A
  type-assertion construct is a node of type \<open>TSAsExpression\<close> or \<open>TSTypeAssertion\<close>.
\<close>

definition isTypeAssertion :: "node \<Rightarrow> bool" where
  "isTypeAssertion n = (n_type n = ''TSAsExpression'' \<or> n_type n = ''TSTypeAssertion'')"

definition isOpeningParenToken :: "token \<Rightarrow> bool" where
  "isOpeningParenToken t = (tok_value t = ''('' \<and> tok_type t = ''Punctuator'')"

text \<open>\<open>{...n, type: AST_NODE_TYPES.SequenceExpression}\<close>: the lowest-precedence stand-in.\<close>

definition as_sequence :: "node \<Rightarrow> node" where
  "as_sequence n = n\<lparr>n_type := ''SequenceExpression''\<rparr>"

text \<open>
  \<open>rules = baseRule.create(context)\<close> is the base rule's listener; what matters of
  it here is which keys it has. Calling the callback under a key records the call
  (the key and the node passed); calling a key the listener lacks is calling
  \<open>undefined\<close>, which throws.
\<close>

type_synonym rules = "string list"

definition call_rule :: "rules \<Rightarrow> string \<Rightarrow> 'n \<Rightarrow> error + (string \<times> 'n) list" where
  "call_rule rules key n = (if key \<in> set rules then Inr [(key, n)] else Inl TypeError)"

subsection \<open>The overrides\<close>

record binary_node =
  b_type :: string
  left :: node
  right :: node

definition binaryExp :: "rules \<Rightarrow> binary_node \<Rightarrow> error + (string \<times> binary_node) list" where
  "binaryExp rules node =
     (let isLeftTypeAssertion = isTypeAssertion (left node);
          isRightTypeAssertion = isTypeAssertion (right node)
      in if isLeftTypeAssertion \<and> isRightTypeAssertion then Inr []
         else if isLeftTypeAssertion then
           call_rule rules ''BinaryExpression'' (node\<lparr>left := as_sequence (left node)\<rparr>)
         else if isRightTypeAssertion then
           call_rule rules ''BinaryExpression'' (node\<lparr>right := as_sequence (right node)\<rparr>)
         else call_rule rules ''BinaryExpression'' node)"

record call_node =
  c_type :: string
  callee :: node
  arguments :: "node list"

definition callExp :: "sourceCode \<Rightarrow> rules \<Rightarrow> call_node \<Rightarrow> error + (string \<times> call_node) list" where
  "callExp toks rules node =
     (if isTypeAssertion (callee node) then
        call_rule rules ''CallExpression'' (node\<lparr>callee := as_sequence (callee node)\<rparr>)
      else (case arguments node of
          [arg] \<Rightarrow>
            if getTokenAfter toks (n_range (callee node)) isOpeningParenToken
               \<noteq> getTokenBefore toks (n_range arg) isOpeningParenToken
            then call_rule rules ''CallExpression'' (node\<lparr>arguments := [as_sequence arg]\<rparr>)
            else call_rule rules ''CallExpression'' node
        | _ \<Rightarrow> call_rule rules ''CallExpression'' node))"

text \<open>A three-clause \<open>for\<close> statement; each clause may be absent (\<open>null\<close>).\<close>

record for_node =
  init :: "node option"
  test :: "node option"
  update :: "node option"

definition is_assertion_clause :: "node option \<Rightarrow> bool" where
  "is_assertion_clause c = (case c of None \<Rightarrow> False | Some n \<Rightarrow> isTypeAssertion n)"

definition ForStatement :: "rules \<Rightarrow> for_node \<Rightarrow> error + (string \<times> for_node) list" where
  "ForStatement rules node =
     (if is_assertion_clause (init node) then
        call_rule rules ''ForStatement'' (node\<lparr>init := None\<rparr>)
      else if is_assertion_clause (test node) then
        call_rule rules ''ForStatement'' (node\<lparr>test := None\<rparr>)
      else if is_assertion_clause (update node) then
        call_rule rules ''ForStatement'' (node\<lparr>update := None\<rparr>)
      else call_rule rules ''ForStatement'' node)"

text \<open>The override under the selector \<open>ForStatement > *.init:exit\<close>.\<close>

definition ForStatement_init_exit :: "rules \<Rightarrow> node \<Rightarrow> error + (string \<times> node) list" where
  "ForStatement_init_exit rules node =
     (if \<not> isTypeAssertion node then call_rule rules ''ForStatement > *.init:exit'' node
      else Inr [])"

text \<open>
  The claim about the \<open>for\<close> header in the spec's words, for comparison: every clause
  that is a type assertion is replaced by the stand-in, each on its own.
\<close>

definition substitute_clause :: "node option \<Rightarrow> node option" where
  "substitute_clause c =
     (case c of None \<Rightarrow> None
      | Some n \<Rightarrow> Some (if isTypeAssertion n then as_sequence n else n))"

definition ForStatement_spec :: "rules \<Rightarrow> for_node \<Rightarrow> error + (string \<times> for_node) list" where
  "ForStatement_spec rules node =
     call_rule rules ''ForStatement''
       (node\<lparr>init := substitute_clause (init node),
             test := substitute_clause (test node),
             update := substitute_clause (update node)\<rparr>)"

text \<open>A \<open>for-in\<close> or \<open>for-of\<close> statement.\<close>

record forx_node =
  x_type :: string
  x_right :: node

definition ForInStatement :: "rules \<Rightarrow> forx_node \<Rightarrow> error + (string \<times> forx_node) list" where
  "ForInStatement rules node =
     (if isTypeAssertion (x_right node) then Inr []
      else call_rule rules ''ForInStatement'' node)"

definition ForOfStatement :: "rules \<Rightarrow> forx_node \<Rightarrow> error + (string \<times> forx_node) list" where
  "ForOfStatement rules node =
     (if isTypeAssertion (x_right node) then
        call_rule rules ''ForOfStatement''
          (node\<lparr>x_type := ''ForOfStatement'', x_right := as_sequence (x_right node)\<rparr>)
      else call_rule rules ''ForOfStatement'' node)"

text \<open>The override under the combined selector \<open>ForInStatement, ForOfStatement\<close>.\<close>

definition ForInStatement_ForOfStatement ::
  "rules \<Rightarrow> forx_node \<Rightarrow> error + (string \<times> forx_node) list" where
  "ForInStatement_ForOfStatement rules node =
     (if isTypeAssertion (x_right node) then
        call_rule rules ''ForInStatement, ForOfStatement''
          (node\<lparr>x_type := ''ForOfStatement'', x_right := as_sequence (x_right node)\<rparr>)
      else call_rule rules ''ForInStatement, ForOfStatement'' node)"

subsection \<open>The listener\<close>

text \<open>
  \<open>create\<close> returns \<open>Object.assign({}, rules, overrides)\<close>: under each key either an
  override of this rule or, where there is none, the base rule's own callback.
  The overrides for \<open>for-in\<close> and \<open>for-of\<close> depend on the keys the base rule has.
\<close>

datatype handler = Base string | Override string

definition overrides :: "rules \<Rightarrow> string list" where
  "overrides rules =
     [''ArrowFunctionExpression'', ''AwaitExpression'', ''BinaryExpression'',
      ''CallExpression'', ''ClassDeclaration'', ''ClassExpression'',
      ''ConditionalExpression'', ''ForStatement'', ''ForStatement > *.init:exit'',
      ''LogicalExpression'', ''MemberExpression'', ''NewExpression'', ''SpreadElement'',
      ''SwitchCase'', ''ThrowStatement'', ''UnaryExpression'', ''UpdateExpression'',
      ''YieldExpression'']
     @ (if ''ForInStatement'' \<in> set rules \<and> ''ForOfStatement'' \<in> set rules
        then [''ForInStatement'', ''ForOfStatement'']
        else [''ForInStatement, ForOfStatement''])"

definition create :: "rules \<Rightarrow> string \<Rightarrow> handler option" where
  "create rules key =
     (if key \<in> set (overrides rules) then Some (Override key)
      else if key \<in> set rules then Some (Base key)
      else None)"

text \<open>
  Running the handler found under a key on a \<open>for-in\<close>/\<open>for-of\<close> node. Modelled from
  the spec: the traversal is the host's; it calls, for a node, the handlers of the
  listener whose selector matches it, for such a node its own type and the combined
  selector.
\<close>

definition run_handler :: "rules \<Rightarrow> handler option \<Rightarrow> forx_node \<Rightarrow> error + (string \<times> forx_node) list" where
  "run_handler rules h node =
     (case h of
        None \<Rightarrow> Inr []
      | Some (Base key) \<Rightarrow> call_rule rules key node
      | Some (Override key) \<Rightarrow>
          if key = ''ForInStatement'' then ForInStatement rules node
          else if key = ''ForOfStatement'' then ForOfStatement rules node
          else if key = ''ForInStatement, ForOfStatement'' then ForInStatement_ForOfStatement rules node
          else Inr [])"

definition visit :: "rules \<Rightarrow> forx_node \<Rightarrow> error + (string \<times> forx_node) list" where
  "visit rules node =
     and_then (run_handler rules (create rules (x_type node)) node)
              (run_handler rules (create rules ''ForInStatement, ForOfStatement'') node)"

section \<open>jsx-newline\<close>

subsection \<open>Regular expressions of the rule\<close>

text \<open>
  Strings are lists of characters below 256. \<open>\s\<close> matches the white space among
  them; \<open>.\<close> matches every character but a line terminator.
\<close>

definition is_space :: "char \<Rightarrow> bool" where
  "is_space c = ((of_char c :: nat) \<in> {9, 10, 11, 12, 13, 32, 160})"

definition is_line_terminator :: "char \<Rightarrow> bool" where
  "is_line_terminator c = ((of_char c :: nat) \<in> {10, 13})"

definition newline :: char where
  "newline = CHR 0x0A"

text \<open>
  \<open>/\n\s*\n/.test(s)\<close>: some newline is followed, after white space only, by another
  newline; a newline is white space itself, so the second one is any newline in the
  white space that follows the first.
\<close>

fun has_blank_line :: "string \<Rightarrow> bool" where
  "has_blank_line [] = False"
| "has_blank_line (c # cs) =
     ((c = newline \<and> list_ex (\<lambda>d. d = newline) (takeWhile is_space cs)) \<or> has_blank_line cs)"

text \<open>\<open>/^\s*{\/\*/.test(s)\<close>: after leading white space the text starts with \<open>{/*\<close>.\<close>

definition starts_block_comment :: "string \<Rightarrow> bool" where
  "starts_block_comment s = (take 3 (dropWhile is_space s) = ''{/*'')"

text \<open>
  \<open>s.replace(/(\n)(?!.*\1)/g, '\n\n')\<close>: every newline that is not followed, on the
  rest of its line, by another newline is doubled.
\<close>

fun double_last_newline :: "string \<Rightarrow> string" where
  "double_last_newline [] = []"
| "double_last_newline (c # cs) =
     (if c = newline \<and> take 1 (dropWhile (\<lambda>d. \<not> is_line_terminator d) cs) \<noteq> [newline]
      then newline # newline # double_last_newline cs
      else c # double_last_newline cs)"

text \<open>
  \<open>s.replace(/(\n\n)(?!.*\1)/g, '\n')\<close>: every pair of newlines that is not followed,
  after the rest of its line, by another pair becomes one newline.
\<close>

fun remove_last_newline :: "string \<Rightarrow> string" where
  "remove_last_newline (c # d # cs) =
     (if c = newline \<and> d = newline
         \<and> take 2 (dropWhile (\<lambda>d. \<not> is_line_terminator d) cs) \<noteq> [newline, newline]
      then newline # remove_last_newline cs
      else c # remove_last_newline (d # cs))"
| "remove_last_newline cs = cs"

subsection \<open>Children of a JSX element\<close>

text \<open>
  What the rule reads of a child: its \<open>type\<close>, its \<open>value\<close> (of a text child), its
  source text (\<open>sourceCode.getText\<close>), its range, and the lines it starts and ends on.
\<close>

record jsx_child =
  j_type :: string
  j_value :: string
  j_text :: string
  j_range :: "int \<times> int"
  start_line :: int
  end_line :: int

record jsx_parent =
  children :: "jsx_child list"
  parent_range :: "int \<times> int"

record jsx_options =
  prevent :: "bool option"
  allowMultilines :: "bool option"

text \<open>A report of this rule: located at a child, with a \<open>replaceText\<close> fix on a child.\<close>

record jsx_report =
  jsx_node :: jsx_child
  jsx_messageId :: string
  replaceText :: "jsx_child \<times> string"

definition isMultilined :: "jsx_child option \<Rightarrow> bool" where
  "isMultilined node = (case node of None \<Rightarrow> False | Some n \<Rightarrow> start_line n \<noteq> end_line n)"

definition isBlockCommentInCurlyBraces :: "jsx_child \<Rightarrow> bool" where
  "isBlockCommentInCurlyBraces element = starts_block_comment (j_text element)"

definition isNonBlockComment :: "jsx_child \<Rightarrow> bool" where
  "isNonBlockComment element =
     (\<not> isBlockCommentInCurlyBraces element
      \<and> (j_type element = ''JSXElement'' \<or> j_type element = ''JSXExpressionContainer''))"

text \<open>\<open>elements[i]\<close>: \<open>undefined\<close> past the end of the array.\<close>

definition element_at :: "'a list \<Rightarrow> nat \<Rightarrow> 'a option" where
  "element_at xs i = (if i < length xs then Some (xs ! i) else None)"

subsection \<open>The check at the end of the program\<close>

text \<open>The callback of \<open>parent.children.forEach((element, index, elements) => ...)\<close>.\<close>

definition check_element ::
  "jsx_options option \<Rightarrow> jsx_child \<Rightarrow> nat \<Rightarrow> jsx_child list \<Rightarrow> jsx_report list" where
  "check_element options0 element index elements =
     (if j_type element = ''JSXElement'' \<or> j_type element = ''JSXExpressionContainer'' then
        (let prevent = (case options0 of None \<Rightarrow> False | Some c \<Rightarrow> prevent c = Some True);
             allowMultilines = (case options0 of None \<Rightarrow> False | Some c \<Rightarrow> allowMultilines c = Some True)
         in case element_at elements (index + 1) of None \<Rightarrow> []
            | Some firstAdjacentSibling \<Rightarrow>
            (case element_at elements (index + 2) of None \<Rightarrow> []
             | Some secondAdjacentSibling \<Rightarrow>
               if \<not> (j_type firstAdjacentSibling = ''Literal''
                      \<or> j_type firstAdjacentSibling = ''JSXText'')
               then []
               else
                 (let isWithoutNewLine = (\<not> has_blank_line (j_value firstAdjacentSibling))
                  in if isBlockCommentInCurlyBraces element then []
                     else if allowMultilines
                             \<and> (isMultilined (Some element)
                                 \<or> isMultilined (find isNonBlockComment (drop (index + 2) elements)))
                     then
                       (if \<not> isWithoutNewLine then []
                        else [\<lparr>jsx_node = secondAdjacentSibling,
                               jsx_messageId = ''allowMultilines'',
                               replaceText = (firstAdjacentSibling,
                                  double_last_newline (j_text firstAdjacentSibling))\<rparr>])
                     else if isWithoutNewLine = prevent then []
                     else [\<lparr>jsx_node = secondAdjacentSibling,
                            jsx_messageId = (if prevent then ''prevent'' else ''require''),
                            replaceText = (firstAdjacentSibling,
                               (if prevent then remove_last_newline (j_text firstAdjacentSibling)
                                else double_last_newline (j_text firstAdjacentSibling)))\<rparr>])))
      else [])"

definition forEach_children :: "jsx_options option \<Rightarrow> jsx_child list \<Rightarrow> jsx_report list" where
  "forEach_children options0 elements =
     concat (map (\<lambda>index. check_element options0 (elements ! index) index elements)
                 [0..<length elements])"

text \<open>
  \<open>jsxElementParents\<close> is the set of parents the selector callback collected, in
  the order of insertion; \<open>Program:exit\<close> goes through the children of each.
\<close>

definition add_parent :: "jsx_parent list \<Rightarrow> jsx_parent \<Rightarrow> jsx_parent list" where
  "add_parent jsxElementParents p =
     (if p \<in> set jsxElementParents then jsxElementParents else jsxElementParents @ [p])"

definition Program_exit :: "jsx_options option \<Rightarrow> jsx_parent list \<Rightarrow> jsx_report list" where
  "Program_exit options0 jsxElementParents =
     concat (map (\<lambda>p. forEach_children options0 (children p)) jsxElementParents)"

section \<open>Source text, tokenization and fixes\<close>

text \<open>\<open>text.slice(a, b)\<close> for offsets \<open>0 \<le> a\<close>.\<close>

definition slice :: "string \<Rightarrow> int \<Rightarrow> int \<Rightarrow> string" where
  "slice text a b = take (nat (b - a)) (drop (nat a) text)"

text \<open>
  The tokenizer is the host's. A token list is a tokenization of a source text when
  each token's value is the text at its range, the tokens follow each other in order,
  and only blanks lie between them.
\<close>

fun is_tokenization_from :: "string \<Rightarrow> int \<Rightarrow> token list \<Rightarrow> bool" where
  "is_tokenization_from text pos [] = list_all (\<lambda>c. c = CHR '' '') (drop (nat pos) text)"
| "is_tokenization_from text pos (t # ts) =
     (pos \<le> fst (tok_range t)
      \<and> fst (tok_range t) < snd (tok_range t)
      \<and> list_all (\<lambda>c. c = CHR '' '') (slice text pos (fst (tok_range t)))
      \<and> slice text (fst (tok_range t)) (snd (tok_range t)) = tok_value t
      \<and> is_tokenization_from text (snd (tok_range t)) ts)"

definition is_tokenization :: "string \<Rightarrow> token list \<Rightarrow> bool" where
  "is_tokenization text toks = is_tokenization_from text 0 toks"

text \<open>
  Modelled from the spec: the host's fixer and fix application are not part of the
  repository. A fixer call describes one contiguous replacement (\<open>TextEdit\<close>):
  an insertion after or before a token is an empty range at the token's end or start.
  The host sorts the edits of a pass by range and applies them from left to right,
  leaving out an edit that starts at or before the end of the last one applied.
\<close>

record TextEdit =
  rangeStart :: int
  rangeEnd :: int
  replacementText :: string

fun edit_of :: "fixer_call \<Rightarrow> TextEdit" where
  "edit_of (insertTextAfter t s) =
     \<lparr>rangeStart = snd (tok_range t), rangeEnd = snd (tok_range t), replacementText = s\<rparr>"
| "edit_of (insertTextBefore t s) =
     \<lparr>rangeStart = fst (tok_range t), rangeEnd = fst (tok_range t), replacementText = s\<rparr>"
| "edit_of (removeRange a b) = \<lparr>rangeStart = a, rangeEnd = b, replacementText = []\<rparr>"

fun applyEdits :: "string \<Rightarrow> int \<Rightarrow> string \<Rightarrow> TextEdit list \<Rightarrow> string" where
  "applyEdits text lastPos output [] = output @ drop (nat (max 0 lastPos)) text"
| "applyEdits text lastPos output (e # es) =
     (if lastPos \<ge> rangeStart e \<or> rangeStart e > rangeEnd e
      then applyEdits text lastPos output es
      else applyEdits text (rangeEnd e)
             (output @ slice text (max 0 lastPos) (max 0 (rangeStart e)) @ replacementText e) es)"

definition applyFixes :: "string \<Rightarrow> report list \<Rightarrow> string" where
  "applyFixes text reports =
     applyEdits text (- 1) []
       (sort_key (\<lambda>e. (rangeStart e, rangeEnd e)) (map (\<lambda>r. edit_of (fixer r)) reports))"

section \<open>Example programs\<close>

definition tok :: "string \<Rightarrow> string \<Rightarrow> int \<Rightarrow> int \<Rightarrow> token" where
  "tok ty v a b = \<lparr>tok_type = ty, tok_value = v, tok_range = (a, b)\<rparr>"

text \<open>\<open>function* foo() {}\<close>: a function declaration at the top level of the program.\<close>

definition star_left_text :: string where
  "star_left_text = ''function* foo() {}''"

definition star_left_tokens :: sourceCode where
  "star_left_tokens =
     [tok ''Keyword'' ''function'' 0 8, tok ''Punctuator'' ''*'' 8 9,
      tok ''Identifier'' ''foo'' 10 13, tok ''Punctuator'' ''('' 13 14,
      tok ''Punctuator'' '')'' 14 15, tok ''Punctuator'' ''{'' 16 17,
      tok ''Punctuator'' ''}'' 17 18]"

definition star_left_node :: function_node where
  "star_left_node =
     \<lparr>generator = True, has_id = True, f_range = (0, 18),
      parent = \<lparr>p_type = ''Program'', p_method = None, p_range = (0, 18)\<rparr>\<rparr>"

text \<open>\<open>function *foo(){}\<close>.\<close>

definition star_right_text :: string where
  "star_right_text = ''function *foo(){}''"

definition star_right_tokens :: sourceCode where
  "star_right_tokens =
     [tok ''Keyword'' ''function'' 0 8, tok ''Punctuator'' ''*'' 9 10,
      tok ''Identifier'' ''foo'' 10 13, tok ''Punctuator'' ''('' 13 14,
      tok ''Punctuator'' '')'' 14 15, tok ''Punctuator'' ''{'' 15 16,
      tok ''Punctuator'' ''}'' 16 17]"

definition star_right_node :: function_node where
  "star_right_node =
     \<lparr>generator = True, has_id = True, f_range = (0, 17),
      parent = \<lparr>p_type = ''Program'', p_method = None, p_range = (0, 17)\<rparr>\<rparr>"

text \<open>
  \<open>class A {* foo(){}}\<close>: the function expression of the method (its range starts at
  the parameter list) with the method definition, which starts at the star, as parent.
\<close>

definition method_text :: string where
  "method_text = ''class A {* foo(){}}''"

definition method_tokens :: sourceCode where
  "method_tokens =
     [tok ''Keyword'' ''class'' 0 5, tok ''Identifier'' ''A'' 6 7,
      tok ''Punctuator'' ''{'' 8 9, tok ''Punctuator'' ''*'' 9 10,
      tok ''Identifier'' ''foo'' 11 14, tok ''Punctuator'' ''('' 14 15,
      tok ''Punctuator'' '')'' 15 16, tok ''Punctuator'' ''{'' 16 17,
      tok ''Punctuator'' ''}'' 17 18, tok ''Punctuator'' ''}'' 18 19]"

definition method_node :: function_node where
  "method_node =
     \<lparr>generator = True, has_id = False, f_range = (14, 18),
      parent = \<lparr>p_type = ''MethodDefinition'', p_method = None, p_range = (9, 18)\<rparr>\<rparr>"

text \<open>\<open>var f = (a)=>a;\<close>: the arrow function's body is the final \<open>a\<close>.\<close>

definition arrow_text :: string where
  "arrow_text = ''var f = (a)=>a;''"

definition arrow_example_tokens :: sourceCode where
  "arrow_example_tokens =
     [tok ''Keyword'' ''var'' 0 3, tok ''Identifier'' ''f'' 4 5,
      tok ''Punctuator'' ''='' 6 7, tok ''Punctuator'' ''('' 8 9,
      tok ''Identifier'' ''a'' 9 10, tok ''Punctuator'' '')'' 10 11,
      tok ''Punctuator'' ''=>'' 11 13, tok ''Identifier'' ''a'' 13 14,
      tok ''Punctuator'' '';'' 14 15]"

definition arrow_example_node :: arrow_node where
  "arrow_example_node = \<lparr>body_range = (13, 14)\<rparr>"

text \<open>\<open>f<(A)>(x)\<close>: a call with an explicit type argument written in parentheses.\<close>

definition typed_call_text :: string where
  "typed_call_text = ''f<(A)>(x)''"

definition typed_call_tokens :: sourceCode where
  "typed_call_tokens =
     [tok ''Identifier'' ''f'' 0 1, tok ''Punctuator'' ''<'' 1 2,
      tok ''Punctuator'' ''('' 2 3, tok ''Identifier'' ''A'' 3 4,
      tok ''Punctuator'' '')'' 4 5, tok ''Punctuator'' ''>'' 5 6,
      tok ''Punctuator'' ''('' 6 7, tok ''Identifier'' ''x'' 7 8,
      tok ''Punctuator'' '')'' 8 9]"

definition typed_call_node :: call_node where
  "typed_call_node =
     \<lparr>c_type = ''CallExpression'', callee = \<lparr>n_type = ''Identifier'', n_range = (0, 1)\<rparr>,
      arguments = [\<lparr>n_type = ''Identifier'', n_range = (7, 8)\<rparr>]\<rparr>"

text \<open>\<open>f(x)\<close>.\<close>

definition plain_call_text :: string where
  "plain_call_text = ''f(x)''"

definition plain_call_tokens :: sourceCode where
  "plain_call_tokens =
     [tok ''Identifier'' ''f'' 0 1, tok ''Punctuator'' ''('' 1 2,
      tok ''Identifier'' ''x'' 2 3, tok ''Punctuator'' '')'' 3 4]"

definition plain_call_node :: call_node where
  "plain_call_node =
     \<lparr>c_type = ''CallExpression'', callee = \<lparr>n_type = ''Identifier'', n_range = (0, 1)\<rparr>,
      arguments = [\<lparr>n_type = ''Identifier'', n_range = (2, 3)\<rparr>]\<rparr>"

text \<open>\<open>f((x))\<close>: no type argument, the argument itself in parentheses.\<close>

definition wrapped_call_text :: string where
  "wrapped_call_text = ''f((x))''"

definition wrapped_call_tokens :: sourceCode where
  "wrapped_call_tokens =
     [tok ''Identifier'' ''f'' 0 1, tok ''Punctuator'' ''('' 1 2,
      tok ''Punctuator'' ''('' 2 3, tok ''Identifier'' ''x'' 3 4,
      tok ''Punctuator'' '')'' 4 5, tok ''Punctuator'' '')'' 5 6]"

definition wrapped_call_node :: call_node where
  "wrapped_call_node =
     \<lparr>c_type = ''CallExpression'', callee = \<lparr>n_type = ''Identifier'', n_range = (0, 1)\<rparr>,
      arguments = [\<lparr>n_type = ''Identifier'', n_range = (3, 4)\<rparr>]\<rparr>"

text \<open>
  \<open>for ((a as any); (b as any); ) {}\<close> and \<open>for ((a as any); b; ) {}\<close>: the clauses
  of the two headers.
\<close>

definition for_two_assertions :: for_node where
  "for_two_assertions =
     \<lparr>init = Some \<lparr>n_type = ''TSAsExpression'', n_range = (6, 14)\<rparr>,
      test = Some \<lparr>n_type = ''TSAsExpression'', n_range = (18, 26)\<rparr>,
      update = None\<rparr>"

definition for_one_assertion :: for_node where
  "for_one_assertion =
     \<lparr>init = Some \<lparr>n_type = ''TSAsExpression'', n_range = (6, 14)\<rparr>,
      test = Some \<lparr>n_type = ''Identifier'', n_range = (17, 18)\<rparr>,
      update = None\<rparr>"

text \<open>
  \<open>for (k in (o as any)) {}\<close> and \<open>for (k of (o as any)) {}\<close>, and the keys of an
  older host's base rule (one callback under the combined selector) and of a newer one
  (one callback per kind).
\<close>

definition for_in_assertion :: forx_node where
  "for_in_assertion =
     \<lparr>x_type = ''ForInStatement'', x_right = \<lparr>n_type = ''TSAsExpression'', n_range = (11, 19)\<rparr>\<rparr>"

definition for_of_assertion :: forx_node where
  "for_of_assertion =
     \<lparr>x_type = ''ForOfStatement'', x_right = \<lparr>n_type = ''TSAsExpression'', n_range = (11, 19)\<rparr>\<rparr>"

definition older_host :: rules where
  "older_host = [''BinaryExpression'', ''CallExpression'', ''ForStatement'',
                 ''ForInStatement, ForOfStatement'']"

definition newer_host :: rules where
  "newer_host = [''BinaryExpression'', ''CallExpression'', ''ForStatement'',
                 ''ForInStatement'', ''ForOfStatement'']"

text \<open>
  The children of \<open><div><a/>NL<b/></div>\<close> (NL a line break), and of the same
  element with the first child replaced by the comment container \<open>{/* c */}\<close>.
\<close>

definition jsx_a :: jsx_child where
  "jsx_a = \<lparr>j_type = ''JSXElement'', j_value = [], j_text = ''<a/>'', j_range = (5, 9),
            start_line = 1, end_line = 1\<rparr>"

definition jsx_nl :: jsx_child where
  "jsx_nl = \<lparr>j_type = ''JSXText'', j_value = [newline], j_text = [newline], j_range = (9, 10),
             start_line = 1, end_line = 2\<rparr>"

definition jsx_b :: jsx_child where
  "jsx_b = \<lparr>j_type = ''JSXElement'', j_value = [], j_text = ''<b/>'', j_range = (10, 14),
            start_line = 2, end_line = 2\<rparr>"

definition jsx_comment :: jsx_child where
  "jsx_comment = \<lparr>j_type = ''JSXExpressionContainer'', j_value = [], j_text = ''{/* c */}'',
                  j_range = (5, 14), start_line = 1, end_line = 1\<rparr>"

definition jsx_div :: jsx_parent where
  "jsx_div = \<lparr>children = [jsx_a, jsx_nl, jsx_b], parent_range = (0, 20)\<rparr>"

section \<open>Option resolution: properties\<close>

lemma modes_at_modes:
  "modes_at (modes (Some option)) k = optionToDefinition (override_of k option) (globalDefaults option)"
  by (cases k) (simp_all add: modes_def Let_def)

lemma override_of_with_override:
  "override_of k (with_override k v (Obj b a n an m)) = v"
  by (cases k) simp_all

text \<open>
  C4. Option resolution of generator-star-spacing. For every kind (named, anonymous,
  method), every side and every enclosing option object: the override
  \<open>{before: true, after: false}\<close> resolves to the same policy as the shorthand
  \<open>"before"\<close>, and \<open>{before: false, after: false}\<close> to the same policy as
  \<open>"neither"\<close>; the same holds for the two forms given as the whole option. A kind
  with no override resolves to the global default, which is the built-in
  \<open>before\<close> policy with the top-level \<open>before\<close>/\<open>after\<close> fields laid over it.
  The resolved modes are a function of the option alone.
\<close>

theorem policy_round_trip:
  "policy_at (modes_at (modes (Some (with_override k (Some (Obj (Some True) (Some False) x y z)) (Obj b a n an m)))) k) s
     = policy_at (modes_at (modes (Some (with_override k (Some (Str OptBefore)) (Obj b a n an m)))) k) s
   \<and> policy_at (modes_at (modes (Some (with_override k (Some (Obj (Some False) (Some False) x y z)) (Obj b a n an m)))) k) s
     = policy_at (modes_at (modes (Some (with_override k (Some (Str OptNeither)) (Obj b a n an m)))) k) s
   \<and> modes (Some (Obj (Some True) (Some False) None None None)) = modes (Some (Str OptBefore))
   \<and> modes (Some (Obj (Some False) (Some False) None None None)) = modes (Some (Str OptNeither))
   \<and> optionToDefinition (Some (Obj (Some True) (Some False) x y z)) d = optionToDefinition (Some (Str OptBefore)) d
   \<and> optionToDefinition (Some (Obj (Some False) (Some False) x y z)) d = optionToDefinition (Some (Str OptNeither)) d
   \<and> modes_at (modes (Some (with_override k None (Obj b a n an m)))) k
     = \<lparr>before = (case b of None \<Rightarrow> True | Some v \<Rightarrow> v), after = (case a of None \<Rightarrow> False | Some v \<Rightarrow> v)\<rparr>
   \<and> modes_at (modes (Some (Str nm))) k = optionDefinitions nm
   \<and> modes_at (modes None) k = optionDefinitions OptBefore"
proof -
  have 1: "policy_at (modes_at (modes (Some (with_override k (Some (Obj (Some True) (Some False) x y z)) (Obj b a n an m)))) k) s
     = policy_at (modes_at (modes (Some (with_override k (Some (Str OptBefore)) (Obj b a n an m)))) k) s"
    by (simp add: modes_at_modes override_of_with_override)
  have 2: "policy_at (modes_at (modes (Some (with_override k (Some (Obj (Some False) (Some False) x y z)) (Obj b a n an m)))) k) s
     = policy_at (modes_at (modes (Some (with_override k (Some (Str OptNeither)) (Obj b a n an m)))) k) s"
    by (simp add: modes_at_modes override_of_with_override)
  have 3: "modes (Some (Obj (Some True) (Some False) None None None)) = modes (Some (Str OptBefore))"
    by (simp add: modes_def globalDefaults_def Let_def)
  have 4: "modes (Some (Obj (Some False) (Some False) None None None)) = modes (Some (Str OptNeither))"
    by (simp add: modes_def globalDefaults_def Let_def)
  have 5: "optionToDefinition (Some (Obj (Some True) (Some False) x y z)) d = optionToDefinition (Some (Str OptBefore)) d"
    by simp
  have 6: "optionToDefinition (Some (Obj (Some False) (Some False) x y z)) d = optionToDefinition (Some (Str OptNeither)) d"
    by simp
  have 7: "modes_at (modes (Some (with_override k None (Obj b a n an m)))) k
     = \<lparr>before = (case b of None \<Rightarrow> True | Some v \<Rightarrow> v), after = (case a of None \<Rightarrow> False | Some v \<Rightarrow> v)\<rparr>"
    by (cases k) (simp_all add: modes_def globalDefaults_def Let_def split: option.splits)
  have 8: "modes_at (modes (Some (Str nm))) k = optionDefinitions nm"
    by (cases k) (simp_all add: modes_def globalDefaults_def Let_def)
  have 9: "modes_at (modes None) k = optionDefinitions OptBefore"
    by (cases k) (simp_all add: modes_def globalDefaults_def Let_def)
  from 1 2 3 4 5 6 7 8 9 show ?thesis by blast
qed

text \<open>
  An instance: the option \<open>{after: true, method: {before: true, after: false}}\<close>
  against \<open>{after: true, method: "before"}\<close>, read for the method kind and the after
  side; the named kind, which has no override, gets \<open>{before: true, after: true}\<close>.
\<close>

theorem policy_round_trip_witness:
  "policy_at (modes_at (modes (Some (Obj None (Some True) None None (Some (Obj (Some True) (Some False) None None None))))) Method) After
     = policy_at (modes_at (modes (Some (Obj None (Some True) None None (Some (Str OptBefore))))) Method) After
   \<and> modes_at (modes (Some (Obj None (Some True) None None (Some (Str OptBefore))))) Named
     = \<lparr>before = True, after = True\<rparr>"
  using policy_round_trip [of Method None None None None "Some True" None None None After undefined undefined]
    policy_round_trip [of Named None None None None "Some True" None None "Some (Str OptBefore)" After undefined undefined]
  by simp

section \<open>Spacing rules: helper facts\<close>

lemma toUpperCase_b: "toUpperCase CHR ''b'' = CHR ''B''"
  by code_simp

lemma toUpperCase_a: "toUpperCase CHR ''a'' = CHR ''A''"
  by code_simp

lemma capitalize_side_name:
  "capitalize (side_name s) = Inr (case s of Before \<Rightarrow> ''Before'' | After \<Rightarrow> ''After'')"
  by (cases s) (simp_all add: toUpperCase_a toUpperCase_b)

lemma checkSpacing_Some:
  "checkSpacing ms k s (Some l) (Some r) =
     (if (fst (tok_range r) - snd (tok_range l) \<noteq> 0) \<noteq> policy_at (modes_at ms k) s
      then Inr [\<lparr>report_node = (if tok_value l = ''*'' then l else r),
                 messageId = (if policy_at (modes_at ms k) s then ''missing'' else ''unexpected'')
                              @ (case s of Before \<Rightarrow> ''Before'' | After \<Rightarrow> ''After''),
                 fixer = (if policy_at (modes_at ms k) s
                          then (if tok_value l = ''*''
                                then insertTextAfter (if tok_value l = ''*'' then l else r) '' ''
                                else insertTextBefore (if tok_value l = ''*'' then l else r) '' '')
                          else removeRange (snd (tok_range l)) (fst (tok_range r)))\<rparr>]
      else Inr [])"
  by (simp add: checkSpacing_def capitalize_side_name Let_def)

lemma spaces_found:
  "getTokens toks node = Inr tk \<Longrightarrow> t_before tk = Some b \<Longrightarrow> t_after tk = Some a \<Longrightarrow>
   spaces rule toks node =
     Inr (spaces_before rule b (t_arrow tk) (fst (tok_range (t_arrow tk)) - snd (tok_range b))
          @ spaces_after rule (t_arrow tk) a (fst (tok_range a) - snd (tok_range (t_arrow tk))))"
  by (simp add: spaces_def countSpaces_def)

lemma and_then_Inr:
  "and_then r1 r2 = Inr rs \<Longrightarrow> \<exists>xs ys. r1 = Inr xs \<and> r2 = Inr ys \<and> rs = xs @ ys"
  by (auto simp: and_then_def split: sum.splits)

lemma and_then_Nil: "and_then (Inr []) r = r"
  by (simp add: and_then_def split: sum.splits)

lemma getFirstToken_holds: "getFirstToken toks r p = Some t \<Longrightarrow> p t"
  by (auto simp: getFirstToken_def find_Some_iff)

lemma getStarToken_isStarToken: "getStarToken toks node = Some star \<Longrightarrow> isStarToken star"
  unfolding getStarToken_def by (rule getFirstToken_holds)

lemma getTokenBefore_ends: "getTokenBefore toks r p = Some t \<Longrightarrow> snd (tok_range t) \<le> fst r"
  by (auto simp: getTokenBefore_def find_Some_iff)

lemma getTokenAfter_starts: "getTokenAfter toks r p = Some t \<Longrightarrow> snd r \<le> fst (tok_range t)"
  by (auto simp: getTokenAfter_def find_Some_iff)

lemma checkSpacing_Inr:
  "checkSpacing ms k s lt rt = Inr rs \<Longrightarrow> \<exists>l r. lt = Some l \<and> rt = Some r"
  by (cases lt; cases rt) (simp_all add: checkSpacing_def)

lemma checkSpacing_node:
  assumes "checkSpacing ms k s (Some l) (Some r) = Inr rs" and "v \<in> set rs"
  shows "report_node v = (if tok_value l = ''*'' then l else r)"
    and "messageId v = (if policy_at (modes_at ms k) s then ''missing'' else ''unexpected'')
                         @ (case s of Before \<Rightarrow> ''Before'' | After \<Rightarrow> ''After'')"
  using assms by (auto simp: checkSpacing_Some split: if_splits)

lemma checkFunction_generator:
  assumes "generator node" and "getStarToken toks node = Some star"
  shows "checkFunction toks ms node =
     and_then
       (if \<not> (kind_of node = Method
               \<and> Some star = getFirstToken toks (p_range (parent node)) anyToken)
        then checkSpacing ms (kind_of node) Before
               (getTokenBefore toks (tok_range star) anyToken) (Some star)
        else Inr [])
       (checkSpacing ms (kind_of node) After (Some star)
          (getTokenAfter toks (tok_range star) anyToken))"
  using assms by (simp add: checkFunction_def Let_def)

lemma checkFunction_node:
  assumes rs: "checkFunction toks ms node = Inr rs" and v: "v \<in> set rs"
    and star: "getStarToken toks node = Some star"
    and prev: "map_option tok_value (getTokenBefore toks (tok_range star) anyToken) \<noteq> Some ''*''"
  shows "report_node v = star"
proof -
  have gen: "generator node"
    using rs v by (cases "generator node") (auto simp: checkFunction_def)
  have val: "tok_value star = ''*''"
    using getStarToken_isStarToken [OF star] by (simp add: isStarToken_def)
  let ?b = "if \<not> (kind_of node = Method
               \<and> Some star = getFirstToken toks (p_range (parent node)) anyToken)
        then checkSpacing ms (kind_of node) Before
               (getTokenBefore toks (tok_range star) anyToken) (Some star)
        else Inr []"
  let ?a = "checkSpacing ms (kind_of node) After (Some star)
          (getTokenAfter toks (tok_range star) anyToken)"
  from rs checkFunction_generator [OF gen star, of ms]
  have "and_then ?b ?a = Inr rs" by simp
  from and_then_Inr [OF this] obtain xs ys
    where b: "?b = Inr xs" and a: "?a = Inr ys" and app: "rs = xs @ ys" by blast
  from v app consider "v \<in> set xs" | "v \<in> set ys" by auto
  then show ?thesis
  proof cases
    case 1
    with b have chk: "checkSpacing ms (kind_of node) Before
               (getTokenBefore toks (tok_range star) anyToken) (Some star) = Inr xs"
      by (auto split: if_splits)
    from checkSpacing_Inr [OF chk] obtain p
      where p: "getTokenBefore toks (tok_range star) anyToken = Some p" by auto
    with prev have "tok_value p \<noteq> ''*''" by simp
    with checkSpacing_node(1) [OF chk [unfolded p] 1] show ?thesis by simp
  next
    case 2
    from checkSpacing_Inr [OF a] obtain n
      where n: "getTokenAfter toks (tok_range star) anyToken = Some n" by auto
    from checkSpacing_node(1) [OF a [unfolded n] 2] val show ?thesis by simp
  qed
qed

lemma getTokens_Inr:
  assumes "getTokens toks node = Inr tk"
  shows "t_before tk = getTokenBefore toks (tok_range (t_arrow tk)) anyToken"
    and "t_after tk = getTokenAfter toks (tok_range (t_arrow tk)) anyToken"
  using assms by (auto simp: getTokens_def split: option.splits)

lemma spaces_node:
  assumes rs: "spaces rule toks node = Inr rs" and v: "v \<in> set rs"
    and tk: "getTokens toks node = Inr tk"
    and ne: "fst (tok_range (t_arrow tk)) < snd (tok_range (t_arrow tk))"
  shows "report_node v \<noteq> t_arrow tk
          \<and> ((messageId v = ''expectedBefore'' \<or> messageId v = ''unexpectedBefore'')
                \<and> t_before tk = Some (report_node v)
              \<or> (messageId v = ''expectedAfter'' \<or> messageId v = ''unexpectedAfter'')
                \<and> t_after tk = Some (report_node v))"
proof -
  from rs tk obtain b a where b: "t_before tk = Some b" and a: "t_after tk = Some a"
    by (auto simp: spaces_def countSpaces_def split: option.splits)
  have "getTokenBefore toks (tok_range (t_arrow tk)) anyToken = Some b"
    using getTokens_Inr(1) [OF tk] b by simp
  from getTokenBefore_ends [OF this] ne
  have bne: "b \<noteq> t_arrow tk" by auto
  have "getTokenAfter toks (tok_range (t_arrow tk)) anyToken = Some a"
    using getTokens_Inr(2) [OF tk] a by simp
  from getTokenAfter_starts [OF this] ne
  have ane: "a \<noteq> t_arrow tk" by auto
  from rs spaces_found [OF tk b a, of rule]
  have "rs = spaces_before rule b (t_arrow tk) (fst (tok_range (t_arrow tk)) - snd (tok_range b))
          @ spaces_after rule (t_arrow tk) a (fst (tok_range a) - snd (tok_range (t_arrow tk)))"
    by simp
  with v a b ane bne show ?thesis
    by (auto simp: spaces_before_def spaces_after_def split: if_splits)
qed

text \<open>
  For tokens that overlap (a negative gap), which the lookups never return,
  \<open>checkSpacing\<close> takes the gap for a space: its test is \<open>gap \<noteq> 0\<close>.
\<close>

lemma checkSpacing_overlapping:
  "fst (tok_range r) < snd (tok_range l) \<Longrightarrow>
   (\<exists>v. checkSpacing ms k s (Some l) (Some r) = Inr [v]) = (\<not> policy_at (modes_at ms k) s)"
  by (auto simp: checkSpacing_Some)

section \<open>Spacing rules: properties\<close>

subsection \<open>Gap and policy\<close>

text \<open>
  C1. The pairs the two rules check are a token and the neighbour that
  \<open>getTokenBefore\<close> or \<open>getTokenAfter\<close> finds for it, so the right token starts at
  or after the end of the left one. For such a pair, with
  \<open>gap = rightToken.range[0] - leftToken.range[1]\<close>, \<open>checkSpacing\<close> reports exactly
  one violation when \<open>gap > 0\<close> differs from the resolved policy of the kind and
  side, and none when they agree; \<open>spaces\<close> applies its two halves to the gaps
  around the arrow, and each half reports exactly one violation under the same
  condition and none otherwise. A gap of zero counts as no space and every positive
  gap as a space, whatever its width.
\<close>

theorem gap_and_policy:
  "(snd (tok_range l) \<le> fst (tok_range r) \<longrightarrow>
      (\<exists>v. checkSpacing ms k s (Some l) (Some r) = Inr [v])
        = ((fst (tok_range r) - snd (tok_range l) > 0) \<noteq> policy_at (modes_at ms k) s)
      \<and> (checkSpacing ms k s (Some l) (Some r) = Inr [])
        = ((fst (tok_range r) - snd (tok_range l) > 0) = policy_at (modes_at ms k) s))
   \<and> (getTokenBefore toks (tok_range star) anyToken = Some p \<longrightarrow>
        snd (tok_range p) \<le> fst (tok_range star))
   \<and> (getTokenAfter toks (tok_range star) anyToken = Some nx \<longrightarrow>
        snd (tok_range star) \<le> fst (tok_range nx))
   \<and> (getTokens atoks anode = Inr tk \<and> t_before tk = Some b \<and> t_after tk = Some a \<longrightarrow>
        0 \<le> fst (tok_range (t_arrow tk)) - snd (tok_range b)
        \<and> 0 \<le> fst (tok_range a) - snd (tok_range (t_arrow tk))
        \<and> spaces rule atoks anode
            = Inr (spaces_before rule b (t_arrow tk) (fst (tok_range (t_arrow tk)) - snd (tok_range b))
                   @ spaces_after rule (t_arrow tk) a (fst (tok_range a) - snd (tok_range (t_arrow tk)))))
   \<and> (0 \<le> n \<longrightarrow>
        (\<exists>v. spaces_before rule b arrow n = [v]) = ((n > 0) \<noteq> before rule)
        \<and> (spaces_before rule b arrow n = []) = ((n > 0) = before rule)
        \<and> (\<exists>v. spaces_after rule arrow a n = [v]) = ((n > 0) \<noteq> after rule)
        \<and> (spaces_after rule arrow a n = []) = ((n > 0) = after rule))"
proof (intro conjI impI)
  assume "snd (tok_range l) \<le> fst (tok_range r)"
  then show "(\<exists>v. checkSpacing ms k s (Some l) (Some r) = Inr [v])
        = ((fst (tok_range r) - snd (tok_range l) > 0) \<noteq> policy_at (modes_at ms k) s)"
    and "(checkSpacing ms k s (Some l) (Some r) = Inr [])
        = ((fst (tok_range r) - snd (tok_range l) > 0) = policy_at (modes_at ms k) s)"
    by (auto simp: checkSpacing_Some)
next
  assume "getTokenBefore toks (tok_range star) anyToken = Some p"
  then show "snd (tok_range p) \<le> fst (tok_range star)"
    by (rule getTokenBefore_ends)
next
  assume "getTokenAfter toks (tok_range star) anyToken = Some nx"
  then show "snd (tok_range star) \<le> fst (tok_range nx)"
    by (rule getTokenAfter_starts)
next
  assume h: "getTokens atoks anode = Inr tk \<and> t_before tk = Some b \<and> t_after tk = Some a"
  then have tk: "getTokens atoks anode = Inr tk" and b: "t_before tk = Some b"
    and a: "t_after tk = Some a" by simp_all
  have "getTokenBefore atoks (tok_range (t_arrow tk)) anyToken = Some b"
    using getTokens_Inr(1) [OF tk] b by simp
  from getTokenBefore_ends [OF this]
  show "0 \<le> fst (tok_range (t_arrow tk)) - snd (tok_range b)" by simp
  have "getTokenAfter atoks (tok_range (t_arrow tk)) anyToken = Some a"
    using getTokens_Inr(2) [OF tk] a by simp
  from getTokenAfter_starts [OF this]
  show "0 \<le> fst (tok_range a) - snd (tok_range (t_arrow tk))" by simp
  from spaces_found [OF tk b a]
  show "spaces rule atoks anode
            = Inr (spaces_before rule b (t_arrow tk) (fst (tok_range (t_arrow tk)) - snd (tok_range b))
                   @ spaces_after rule (t_arrow tk) a (fst (tok_range a) - snd (tok_range (t_arrow tk))))" .
next
  assume "0 \<le> n"
  then show "(\<exists>v. spaces_before rule b arrow n = [v]) = ((n > 0) \<noteq> before rule)"
    and "(spaces_before rule b arrow n = []) = ((n > 0) = before rule)"
    and "(\<exists>v. spaces_after rule arrow a n = [v]) = ((n > 0) \<noteq> after rule)"
    and "(spaces_after rule arrow a n = []) = ((n > 0) = after rule)"
    by (auto simp: spaces_before_def spaces_after_def)
qed

text \<open>
  The instances: \<open>function* foo() {}\<close>, with a gap of 0 before the star and of 1
  after it, both against the default policy; the arrow of \<open>var f = (a)=>a;\<close> with
  a gap of 0 on both sides; and a gap of 1 after an arrow, which satisfies the policy.
\<close>

theorem gap_and_policy_witness:
  "snd (tok_range (tok ''Keyword'' ''function'' 0 8)) \<le> fst (tok_range (tok ''Punctuator'' ''*'' 8 9))
   \<and> getTokenBefore star_left_tokens (tok_range (tok ''Punctuator'' ''*'' 8 9)) anyToken
       = Some (tok ''Keyword'' ''function'' 0 8)
   \<and> getTokenAfter star_left_tokens (tok_range (tok ''Punctuator'' ''*'' 8 9)) anyToken
       = Some (tok ''Identifier'' ''foo'' 10 13)
   \<and> (\<exists>v. checkSpacing (modes None) Named Before
             (Some (tok ''Keyword'' ''function'' 0 8)) (Some (tok ''Punctuator'' ''*'' 8 9)) = Inr [v])
   \<and> (\<exists>v. checkSpacing (modes None) Named After
             (Some (tok ''Punctuator'' ''*'' 8 9)) (Some (tok ''Identifier'' ''foo'' 10 13)) = Inr [v])
   \<and> getTokens arrow_example_tokens arrow_example_node
        = Inr \<lparr>t_before = Some (tok ''Punctuator'' '')'' 10 11), t_arrow = tok ''Punctuator'' ''=>'' 11 13,
               t_after = Some (tok ''Identifier'' ''a'' 13 14)\<rparr>
   \<and> spaces (arrow_rule None) arrow_example_tokens arrow_example_node
        = Inr (spaces_before (arrow_rule None) (tok ''Punctuator'' '')'' 10 11) (tok ''Punctuator'' ''=>'' 11 13) 0
               @ spaces_after (arrow_rule None) (tok ''Punctuator'' ''=>'' 11 13) (tok ''Identifier'' ''a'' 13 14) 0)
   \<and> (\<exists>v. spaces_before (arrow_rule None) (tok ''Punctuator'' '')'' 10 11) (tok ''Punctuator'' ''=>'' 11 13) 0 = [v])
   \<and> (\<exists>v. spaces_after (arrow_rule None) (tok ''Punctuator'' ''=>'' 11 13) (tok ''Identifier'' ''a'' 13 14) 0 = [v])
   \<and> spaces_after (arrow_rule None) (tok ''Punctuator'' ''=>'' 11 13) (tok ''Identifier'' ''a'' 14 15) 1 = []"
proof -
  let ?tk = "\<lparr>t_before = Some (tok ''Punctuator'' '')'' 10 11), t_arrow = tok ''Punctuator'' ''=>'' 11 13,
               t_after = Some (tok ''Identifier'' ''a'' 13 14)\<rparr>"
  have pol: "policy_at (modes_at (modes None) Named) Before" "\<not> policy_at (modes_at (modes None) Named) After"
    "before (arrow_rule None)" "after (arrow_rule None)"
    by (simp_all add: modes_def globalDefaults_def Let_def arrow_rule_def)
  have gb: "getTokenBefore star_left_tokens (tok_range (tok ''Punctuator'' ''*'' 8 9)) anyToken
       = Some (tok ''Keyword'' ''function'' 0 8)"
    and ga: "getTokenAfter star_left_tokens (tok_range (tok ''Punctuator'' ''*'' 8 9)) anyToken
       = Some (tok ''Identifier'' ''foo'' 10 13)"
    and gt: "getTokens arrow_example_tokens arrow_example_node = Inr ?tk"
    by code_simp+
  note i1 = gap_and_policy [where l = "tok ''Keyword'' ''function'' 0 8" and r = "tok ''Punctuator'' ''*'' 8 9"
      and ms = "modes None" and k = Named and s = Before
      and toks = star_left_tokens and star = "tok ''Punctuator'' ''*'' 8 9"
      and p = "tok ''Keyword'' ''function'' 0 8" and nx = "tok ''Identifier'' ''foo'' 10 13"
      and atoks = arrow_example_tokens and anode = arrow_example_node and tk = ?tk
      and b = "tok ''Punctuator'' '')'' 10 11" and a = "tok ''Identifier'' ''a'' 13 14"
      and rule = "arrow_rule None" and n = 0 and arrow = "tok ''Punctuator'' ''=>'' 11 13"]
  note i2 = gap_and_policy [where l = "tok ''Punctuator'' ''*'' 8 9" and r = "tok ''Identifier'' ''foo'' 10 13"
      and ms = "modes None" and k = Named and s = After
      and toks = star_left_tokens and star = "tok ''Punctuator'' ''*'' 8 9"
      and p = "tok ''Keyword'' ''function'' 0 8" and nx = "tok ''Identifier'' ''foo'' 10 13"
      and atoks = arrow_example_tokens and anode = arrow_example_node and tk = ?tk
      and b = "tok ''Punctuator'' '')'' 10 11" and a = "tok ''Identifier'' ''a'' 14 15"
      and rule = "arrow_rule None" and n = 1 and arrow = "tok ''Punctuator'' ''=>'' 11 13"]
  from i1 gb ga
  have o1: "snd (tok_range (tok ''Keyword'' ''function'' 0 8)) \<le> fst (tok_range (tok ''Punctuator'' ''*'' 8 9))"
    and o2: "snd (tok_range (tok ''Punctuator'' ''*'' 8 9)) \<le> fst (tok_range (tok ''Identifier'' ''foo'' 10 13))"
    by blast+
  from i1 o1 pol
  have c1: "\<exists>v. checkSpacing (modes None) Named Before
             (Some (tok ''Keyword'' ''function'' 0 8)) (Some (tok ''Punctuator'' ''*'' 8 9)) = Inr [v]"
    by (simp add: tok_def)
  from i2 o2 pol
  have c2: "\<exists>v. checkSpacing (modes None) Named After
             (Some (tok ''Punctuator'' ''*'' 8 9)) (Some (tok ''Identifier'' ''foo'' 10 13)) = Inr [v]"
    by (simp add: tok_def)
  from i1 gt pol
  have s: "spaces (arrow_rule None) arrow_example_tokens arrow_example_node
        = Inr (spaces_before (arrow_rule None) (tok ''Punctuator'' '')'' 10 11) (tok ''Punctuator'' ''=>'' 11 13) 0
               @ spaces_after (arrow_rule None) (tok ''Punctuator'' ''=>'' 11 13) (tok ''Identifier'' ''a'' 13 14) 0)"
    and s1: "\<exists>v. spaces_before (arrow_rule None) (tok ''Punctuator'' '')'' 10 11) (tok ''Punctuator'' ''=>'' 11 13) 0 = [v]"
    and s2: "\<exists>v. spaces_after (arrow_rule None) (tok ''Punctuator'' ''=>'' 11 13) (tok ''Identifier'' ''a'' 13 14) 0 = [v]"
    by (simp_all add: tok_def)
  from i2 pol
  have s3: "spaces_after (arrow_rule None) (tok ''Punctuator'' ''=>'' 11 13) (tok ''Identifier'' ''a'' 14 15) 1 = []"
    by simp
  from o1 gb ga c1 c2 gt s s1 s2 s3 show ?thesis by simp
qed

subsection \<open>The default policy on two sources\<close>

text \<open>
  C3 (as amended). Under the default policy (\<open>before: true, after: false\<close>) the
  source \<open>function *foo(){}\<close> produces no violation, while \<open>function* foo() {}\<close>
  produces exactly two, \<open>missingBefore\<close> and \<open>unexpectedAfter\<close>, and applying both
  fixes (one space inserted before the star, the gap after it removed) yields
  \<open>function *foo() {}\<close>.
\<close>

theorem default_policy_examples:
  "star_right_text = ''function *foo(){}''
   \<and> is_tokenization star_right_text star_right_tokens
   \<and> checkFunction star_right_tokens (modes None) star_right_node = Inr []
   \<and> star_left_text = ''function* foo() {}''
   \<and> is_tokenization star_left_text star_left_tokens
   \<and> checkFunction star_left_tokens (modes None) star_left_node
       = Inr [\<lparr>report_node = tok ''Punctuator'' ''*'' 8 9, messageId = ''missingBefore'',
                fixer = insertTextBefore (tok ''Punctuator'' ''*'' 8 9) '' ''\<rparr>,
              \<lparr>report_node = tok ''Punctuator'' ''*'' 8 9, messageId = ''unexpectedAfter'',
                fixer = removeRange 9 10\<rparr>]
   \<and> applyFixes star_left_text
        [\<lparr>report_node = tok ''Punctuator'' ''*'' 8 9, messageId = ''missingBefore'',
           fixer = insertTextBefore (tok ''Punctuator'' ''*'' 8 9) '' ''\<rparr>,
         \<lparr>report_node = tok ''Punctuator'' ''*'' 8 9, messageId = ''unexpectedAfter'',
           fixer = removeRange 9 10\<rparr>]
       = ''function *foo() {}''
   \<and> modes_at (modes None) Named = \<lparr>before = True, after = False\<rparr>"
  by code_simp

text \<open>A part of it on its own.\<close>

theorem default_policy_examples_witness:
  "checkFunction star_right_tokens (modes None) star_right_node = Inr []"
  using default_policy_examples by blast

text \<open>
  C3 as stated fails: \<open>function* foo() {}\<close> does produce violations, and
  \<open>function *foo(){}\<close> produces none.
\<close>

theorem default_policy_counterexample:
  "is_tokenization ''function* foo() {}'' star_left_tokens
   \<and> checkFunction star_left_tokens (modes None) star_left_node \<noteq> Inr []
   \<and> is_tokenization ''function *foo(){}'' star_right_tokens
   \<and> checkFunction star_right_tokens (modes None) star_right_node = Inr []"
  by code_simp

subsection \<open>Where a violation is located\<close>

text \<open>
  C5 (as amended). In generator-star-spacing every violation is located at the star
  token itself, on both sides and for both the missing and the unexpected kind
  (given that the token before the star is not itself a \<open>*\<close>). In arrow-spacing every
  violation is located at a neighbour of the arrow, never at the arrow: the token
  before it for \<open>expectedBefore\<close> and \<open>unexpectedBefore\<close>, the token after it for
  \<open>expectedAfter\<close> and \<open>unexpectedAfter\<close>.
\<close>

theorem report_location:
  "(checkFunction toks ms node = Inr rs \<and> v \<in> set rs \<and> getStarToken toks node = Some star
      \<and> map_option tok_value (getTokenBefore toks (tok_range star) anyToken) \<noteq> Some ''*''
      \<longrightarrow> report_node v = star \<and> isStarToken star)
   \<and> (spaces rule atoks anode = Inr ars \<and> w \<in> set ars \<and> getTokens atoks anode = Inr tk
        \<and> fst (tok_range (t_arrow tk)) < snd (tok_range (t_arrow tk))
      \<longrightarrow> report_node w \<noteq> t_arrow tk
          \<and> ((messageId w = ''expectedBefore'' \<or> messageId w = ''unexpectedBefore'')
                \<and> t_before tk = Some (report_node w)
              \<or> (messageId w = ''expectedAfter'' \<or> messageId w = ''unexpectedAfter'')
                \<and> t_after tk = Some (report_node w)))"
  using checkFunction_node getStarToken_isStarToken spaces_node by blast

text \<open>The instances \<open>function* foo() {}\<close> and \<open>var f = (a)=>a;\<close>.\<close>

theorem report_location_witness:
  "checkFunction star_left_tokens (modes None) star_left_node
     = Inr [\<lparr>report_node = tok ''Punctuator'' ''*'' 8 9, messageId = ''missingBefore'',
              fixer = insertTextBefore (tok ''Punctuator'' ''*'' 8 9) '' ''\<rparr>,
            \<lparr>report_node = tok ''Punctuator'' ''*'' 8 9, messageId = ''unexpectedAfter'',
              fixer = removeRange 9 10\<rparr>]
   \<and> getStarToken star_left_tokens star_left_node = Some (tok ''Punctuator'' ''*'' 8 9)
   \<and> map_option tok_value (getTokenBefore star_left_tokens (tok_range (tok ''Punctuator'' ''*'' 8 9)) anyToken)
        \<noteq> Some ''*''
   \<and> isStarToken (tok ''Punctuator'' ''*'' 8 9)
   \<and> spaces (arrow_rule None) arrow_example_tokens arrow_example_node
        = Inr [\<lparr>report_node = tok ''Punctuator'' '')'' 10 11, messageId = ''expectedBefore'',
                 fixer = insertTextBefore (tok ''Punctuator'' ''=>'' 11 13) '' ''\<rparr>,
               \<lparr>report_node = tok ''Identifier'' ''a'' 13 14, messageId = ''expectedAfter'',
                 fixer = insertTextAfter (tok ''Punctuator'' ''=>'' 11 13) '' ''\<rparr>]
   \<and> getTokens arrow_example_tokens arrow_example_node
        = Inr \<lparr>t_before = Some (tok ''Punctuator'' '')'' 10 11), t_arrow = tok ''Punctuator'' ''=>'' 11 13,
               t_after = Some (tok ''Identifier'' ''a'' 13 14)\<rparr>
   \<and> tok ''Identifier'' ''a'' 13 14 \<noteq> tok ''Punctuator'' ''=>'' 11 13"
proof -
  let ?r1 = "\<lparr>report_node = tok ''Punctuator'' ''*'' 8 9, messageId = ''missingBefore'',
              fixer = insertTextBefore (tok ''Punctuator'' ''*'' 8 9) '' ''\<rparr>"
  let ?r2 = "\<lparr>report_node = tok ''Punctuator'' ''*'' 8 9, messageId = ''unexpectedAfter'',
              fixer = removeRange 9 10\<rparr>"
  let ?a1 = "\<lparr>report_node = tok ''Punctuator'' '')'' 10 11, messageId = ''expectedBefore'',
                 fixer = insertTextBefore (tok ''Punctuator'' ''=>'' 11 13) '' ''\<rparr>"
  let ?a2 = "\<lparr>report_node = tok ''Identifier'' ''a'' 13 14, messageId = ''expectedAfter'',
                 fixer = insertTextAfter (tok ''Punctuator'' ''=>'' 11 13) '' ''\<rparr>"
  let ?tk = "\<lparr>t_before = Some (tok ''Punctuator'' '')'' 10 11), t_arrow = tok ''Punctuator'' ''=>'' 11 13,
               t_after = Some (tok ''Identifier'' ''a'' 13 14)\<rparr>"
  have c: "checkFunction star_left_tokens (modes None) star_left_node = Inr [?r1, ?r2]"
    by code_simp
  have s: "getStarToken star_left_tokens star_left_node = Some (tok ''Punctuator'' ''*'' 8 9)"
    by code_simp
  have p: "map_option tok_value (getTokenBefore star_left_tokens (tok_range (tok ''Punctuator'' ''*'' 8 9)) anyToken)
        \<noteq> Some ''*''"
    by code_simp
  have a: "spaces (arrow_rule None) arrow_example_tokens arrow_example_node = Inr [?a1, ?a2]"
    by code_simp
  have g: "getTokens arrow_example_tokens arrow_example_node = Inr ?tk"
    by code_simp
  have n: "fst (tok_range (t_arrow ?tk)) < snd (tok_range (t_arrow ?tk))"
    by (simp add: tok_def)
  have m: "?r1 \<in> set [?r1, ?r2]" "?a2 \<in> set [?a1, ?a2]"
    by simp_all
  from report_location [of star_left_tokens "modes None" star_left_node "[?r1, ?r2]" ?r1
        "tok ''Punctuator'' ''*'' 8 9" "arrow_rule None" arrow_example_tokens arrow_example_node
        "[?a1, ?a2]" ?a2 ?tk]
      c s p a g n m
  have "isStarToken (tok ''Punctuator'' ''*'' 8 9)"
    and "report_node ?a2 \<noteq> t_arrow ?tk"
    by blast+
  with c s p a g show ?thesis by simp
qed

text \<open>
  C5 as stated fails: in \<open>function* foo() {}\<close> the \<open>missingBefore\<close> violation is
  located at the star, the delimiter, not at the other token; in \<open>var f = (a)=>a;\<close>
  the \<open>expectedAfter\<close> violation, whose fix inserts a space after the arrow, is
  located at the token after the arrow, not at the arrow.
\<close>

theorem report_location_counterexample:
  "checkFunction star_left_tokens (modes None) star_left_node
     = Inr [\<lparr>report_node = tok ''Punctuator'' ''*'' 8 9, messageId = ''missingBefore'',
              fixer = insertTextBefore (tok ''Punctuator'' ''*'' 8 9) '' ''\<rparr>,
            \<lparr>report_node = tok ''Punctuator'' ''*'' 8 9, messageId = ''unexpectedAfter'',
              fixer = removeRange 9 10\<rparr>]
   \<and> getStarToken star_left_tokens star_left_node = Some (tok ''Punctuator'' ''*'' 8 9)
   \<and> spaces (arrow_rule None) arrow_example_tokens arrow_example_node
        = Inr [\<lparr>report_node = tok ''Punctuator'' '')'' 10 11, messageId = ''expectedBefore'',
                 fixer = insertTextBefore (tok ''Punctuator'' ''=>'' 11 13) '' ''\<rparr>,
               \<lparr>report_node = tok ''Identifier'' ''a'' 13 14, messageId = ''expectedAfter'',
                 fixer = insertTextAfter (tok ''Punctuator'' ''=>'' 11 13) '' ''\<rparr>]
   \<and> getTokenBefore arrow_example_tokens (body_range arrow_example_node) isArrowToken
        = Some (tok ''Punctuator'' ''=>'' 11 13)
   \<and> tok ''Identifier'' ''a'' 13 14 \<noteq> tok ''Punctuator'' ''=>'' 11 13"
  by code_simp

subsection \<open>The before-side check of a method\<close>

text \<open>
  C6. For a generator whose star was found: when the function is of the method kind
  and the star is the first token of the owning member definition, \<open>checkFunction\<close>
  is the after-side check alone, so every violation it reports is an after-side one;
  in every other case it is the before-side check followed by the after-side check.
\<close>

theorem before_check_skipped:
  "generator node \<and> getStarToken toks node = Some star \<longrightarrow>
     (kind_of node = Method \<and> Some star = getFirstToken toks (p_range (parent node)) anyToken \<longrightarrow>
        checkFunction toks ms node
          = checkSpacing ms Method After (Some star) (getTokenAfter toks (tok_range star) anyToken)
        \<and> (\<forall>rs v. checkFunction toks ms node = Inr rs \<and> v \<in> set rs \<longrightarrow>
              (messageId v = ''missingAfter'' \<or> messageId v = ''unexpectedAfter'')
              \<and> messageId v \<noteq> ''missingBefore'' \<and> messageId v \<noteq> ''unexpectedBefore''))
     \<and> (\<not> (kind_of node = Method \<and> Some star = getFirstToken toks (p_range (parent node)) anyToken) \<longrightarrow>
        checkFunction toks ms node
          = and_then
              (checkSpacing ms (kind_of node) Before (getTokenBefore toks (tok_range star) anyToken) (Some star))
              (checkSpacing ms (kind_of node) After (Some star) (getTokenAfter toks (tok_range star) anyToken)))"
proof (intro impI conjI allI)
  assume g: "generator node \<and> getStarToken toks node = Some star"
    and m: "kind_of node = Method \<and> Some star = getFirstToken toks (p_range (parent node)) anyToken"
  from g have gen: "generator node" and st: "getStarToken toks node = Some star" by simp_all
  show eq: "checkFunction toks ms node
          = checkSpacing ms Method After (Some star) (getTokenAfter toks (tok_range star) anyToken)"
    unfolding checkFunction_generator [OF gen st] using m by (simp only: simp_thms if_False and_then_Nil)
  fix rs v
  assume "checkFunction toks ms node = Inr rs \<and> v \<in> set rs"
  with eq have chk: "checkSpacing ms Method After (Some star) (getTokenAfter toks (tok_range star) anyToken) = Inr rs"
    and v: "v \<in> set rs" by simp_all
  from checkSpacing_Inr [OF chk] obtain n
    where n: "getTokenAfter toks (tok_range star) anyToken = Some n" by auto
  from checkSpacing_node(2) [OF chk [unfolded n] v]
  show "messageId v = ''missingAfter'' \<or> messageId v = ''unexpectedAfter''"
    and "messageId v \<noteq> ''missingBefore''" and "messageId v \<noteq> ''unexpectedBefore''"
    by (simp_all split: if_splits)
next
  assume g: "generator node \<and> getStarToken toks node = Some star"
    and m: "\<not> (kind_of node = Method \<and> Some star = getFirstToken toks (p_range (parent node)) anyToken)"
  from g have gen: "generator node" and st: "getStarToken toks node = Some star" by simp_all
  show "checkFunction toks ms node
          = and_then
              (checkSpacing ms (kind_of node) Before (getTokenBefore toks (tok_range star) anyToken) (Some star))
              (checkSpacing ms (kind_of node) After (Some star) (getTokenAfter toks (tok_range star) anyToken))"
    unfolding checkFunction_generator [OF gen st] using m by (simp only: simp_thms if_True)
qed

text \<open>
  The instances: the method of \<open>class A {* foo(){}}\<close>, where no space precedes the
  star and only \<open>unexpectedAfter\<close> is reported, and \<open>function* foo() {}\<close>.
\<close>

theorem before_check_skipped_witness:
  "generator method_node
   \<and> getStarToken method_tokens method_node = Some (tok ''Punctuator'' ''*'' 9 10)
   \<and> kind_of method_node = Method
   \<and> Some (tok ''Punctuator'' ''*'' 9 10) = getFirstToken method_tokens (p_range (parent method_node)) anyToken
   \<and> checkFunction method_tokens (modes None) method_node
        = Inr [\<lparr>report_node = tok ''Punctuator'' ''*'' 9 10, messageId = ''unexpectedAfter'',
                 fixer = removeRange 10 11\<rparr>]
   \<and> generator star_left_node
   \<and> getStarToken star_left_tokens star_left_node = Some (tok ''Punctuator'' ''*'' 8 9)
   \<and> kind_of star_left_node \<noteq> Method
   \<and> checkFunction star_left_tokens (modes None) star_left_node
        = and_then
            (checkSpacing (modes None) (kind_of star_left_node) Before
               (getTokenBefore star_left_tokens (tok_range (tok ''Punctuator'' ''*'' 8 9)) anyToken)
               (Some (tok ''Punctuator'' ''*'' 8 9)))
            (checkSpacing (modes None) (kind_of star_left_node) After
               (Some (tok ''Punctuator'' ''*'' 8 9))
               (getTokenAfter star_left_tokens (tok_range (tok ''Punctuator'' ''*'' 8 9)) anyToken))"
proof -
  have m1: "generator method_node" by (simp add: method_node_def)
  have m2: "getStarToken method_tokens method_node = Some (tok ''Punctuator'' ''*'' 9 10)"
    by code_simp
  have m3: "kind_of method_node = Method" by (simp add: kind_of_def method_node_def)
  have m4: "Some (tok ''Punctuator'' ''*'' 9 10)
             = getFirstToken method_tokens (p_range (parent method_node)) anyToken"
    by code_simp
  have m5: "checkSpacing (modes None) Method After (Some (tok ''Punctuator'' ''*'' 9 10))
              (getTokenAfter method_tokens (tok_range (tok ''Punctuator'' ''*'' 9 10)) anyToken)
            = Inr [\<lparr>report_node = tok ''Punctuator'' ''*'' 9 10, messageId = ''unexpectedAfter'',
                 fixer = removeRange 10 11\<rparr>]"
    by code_simp
  have s1: "generator star_left_node" by (simp add: star_left_node_def)
  have s2: "getStarToken star_left_tokens star_left_node = Some (tok ''Punctuator'' ''*'' 8 9)"
    by code_simp
  have s3: "kind_of star_left_node \<noteq> Method" by (simp add: kind_of_def star_left_node_def)
  show ?thesis
    using before_check_skipped [of method_node method_tokens "tok ''Punctuator'' ''*'' 9 10"
        "modes None"]
      before_check_skipped [of star_left_node star_left_tokens "tok ''Punctuator'' ''*'' 8 9" "modes None"]
      m1 m2 m3 m4 m5 s1 s2 s3
    by simp
qed

section \<open>no-extra-parens: properties\<close>

lemma call_rule_present: "key \<in> set rules \<Longrightarrow> call_rule rules key n = Inr [(key, n)]"
  by (simp add: call_rule_def)

text \<open>
  C2. The override for binary and logical expressions (both selectors run
  \<open>binaryExp\<close>, which calls the base rule's \<open>BinaryExpression\<close> callback). When
  exactly one operand is a type assertion, the base rule is called with a copy of the
  node whose operand of that side has the type \<open>SequenceExpression\<close> and is
  otherwise the same; when both are, the base rule is not called; when neither is, it
  is called with the node itself. Nodes are values here: the copy is a new value, and
  the override yields nothing but the call, so the node it was given is as it was.
\<close>

theorem binaryExp_substitution:
  "(''BinaryExpression'' \<in> set rules \<and> isTypeAssertion (left n) \<and> \<not> isTypeAssertion (right n) \<longrightarrow>
      binaryExp rules n
        = Inr [(''BinaryExpression'', n\<lparr>left := (left n)\<lparr>n_type := ''SequenceExpression''\<rparr>\<rparr>)])
   \<and> (''BinaryExpression'' \<in> set rules \<and> \<not> isTypeAssertion (left n) \<and> isTypeAssertion (right n) \<longrightarrow>
      binaryExp rules n
        = Inr [(''BinaryExpression'', n\<lparr>right := (right n)\<lparr>n_type := ''SequenceExpression''\<rparr>\<rparr>)])
   \<and> (isTypeAssertion (left n) \<and> isTypeAssertion (right n) \<longrightarrow> binaryExp rules n = Inr [])
   \<and> (''BinaryExpression'' \<in> set rules \<and> \<not> isTypeAssertion (left n) \<and> \<not> isTypeAssertion (right n) \<longrightarrow>
      binaryExp rules n = Inr [(''BinaryExpression'', n)])"
  by (simp add: binaryExp_def Let_def call_rule_present as_sequence_def)

text \<open>
  The instances \<open>(x as T) + y\<close>, \<open>a || <T>b\<close>, \<open>(x as T) + (y as T)\<close> and \<open>(x) + y\<close>.
\<close>

theorem binaryExp_substitution_witness:
  "binaryExp [''BinaryExpression'']
      \<lparr>b_type = ''BinaryExpression'', left = \<lparr>n_type = ''TSAsExpression'', n_range = (1, 7)\<rparr>,
        right = \<lparr>n_type = ''Identifier'', n_range = (11, 12)\<rparr>\<rparr>
     = Inr [(''BinaryExpression'',
        \<lparr>b_type = ''BinaryExpression'', left = \<lparr>n_type = ''SequenceExpression'', n_range = (1, 7)\<rparr>,
          right = \<lparr>n_type = ''Identifier'', n_range = (11, 12)\<rparr>\<rparr>)]
   \<and> binaryExp [''BinaryExpression'']
      \<lparr>b_type = ''LogicalExpression'', left = \<lparr>n_type = ''Identifier'', n_range = (0, 1)\<rparr>,
        right = \<lparr>n_type = ''TSTypeAssertion'', n_range = (6, 12)\<rparr>\<rparr>
     = Inr [(''BinaryExpression'',
        \<lparr>b_type = ''LogicalExpression'', left = \<lparr>n_type = ''Identifier'', n_range = (0, 1)\<rparr>,
          right = \<lparr>n_type = ''SequenceExpression'', n_range = (6, 12)\<rparr>\<rparr>)]
   \<and> binaryExp [''BinaryExpression'']
      \<lparr>b_type = ''BinaryExpression'', left = \<lparr>n_type = ''TSAsExpression'', n_range = (1, 7)\<rparr>,
        right = \<lparr>n_type = ''TSAsExpression'', n_range = (12, 18)\<rparr>\<rparr>
     = Inr []
   \<and> binaryExp [''BinaryExpression'']
      \<lparr>b_type = ''BinaryExpression'', left = \<lparr>n_type = ''Identifier'', n_range = (1, 2)\<rparr>,
        right = \<lparr>n_type = ''Identifier'', n_range = (6, 7)\<rparr>\<rparr>
     = Inr [(''BinaryExpression'',
        \<lparr>b_type = ''BinaryExpression'', left = \<lparr>n_type = ''Identifier'', n_range = (1, 2)\<rparr>,
        right = \<lparr>n_type = ''Identifier'', n_range = (6, 7)\<rparr>\<rparr>)]"
  using
    binaryExp_substitution [of "[''BinaryExpression'']"
      "\<lparr>b_type = ''BinaryExpression'', left = \<lparr>n_type = ''TSAsExpression'', n_range = (1, 7)\<rparr>,
        right = \<lparr>n_type = ''Identifier'', n_range = (11, 12)\<rparr>\<rparr>"]
    binaryExp_substitution [of "[''BinaryExpression'']"
      "\<lparr>b_type = ''LogicalExpression'', left = \<lparr>n_type = ''Identifier'', n_range = (0, 1)\<rparr>,
        right = \<lparr>n_type = ''TSTypeAssertion'', n_range = (6, 12)\<rparr>\<rparr>"]
    binaryExp_substitution [of "[''BinaryExpression'']"
      "\<lparr>b_type = ''BinaryExpression'', left = \<lparr>n_type = ''TSAsExpression'', n_range = (1, 7)\<rparr>,
        right = \<lparr>n_type = ''TSAsExpression'', n_range = (12, 18)\<rparr>\<rparr>"]
    binaryExp_substitution [of "[''BinaryExpression'']"
      "\<lparr>b_type = ''BinaryExpression'', left = \<lparr>n_type = ''Identifier'', n_range = (1, 2)\<rparr>,
        right = \<lparr>n_type = ''Identifier'', n_range = (6, 7)\<rparr>\<rparr>"]
  by (simp add: isTypeAssertion_def)

text \<open>
  C7. The override for call and new expressions (both selectors run \<open>callExp\<close>, which
  calls the base rule's \<open>CallExpression\<close> callback), for a node with exactly one
  argument whose callee is not a type assertion: when the first opening parenthesis
  after the callee is not the last opening parenthesis before the argument, the base
  rule is called with a copy whose sole argument has the type
  \<open>SequenceExpression\<close>; when the two are the same token (or both lookups find
  none), it is called with the node unchanged.
\<close>

theorem callExp_type_argument_parens:
  "''CallExpression'' \<in> set rules \<and> arguments n = [arg] \<and> \<not> isTypeAssertion (callee n) \<longrightarrow>
     (getTokenAfter toks (n_range (callee n)) isOpeningParenToken
        \<noteq> getTokenBefore toks (n_range arg) isOpeningParenToken \<longrightarrow>
      callExp toks rules n
        = Inr [(''CallExpression'', n\<lparr>arguments := [arg\<lparr>n_type := ''SequenceExpression''\<rparr>]\<rparr>)])
     \<and> (getTokenAfter toks (n_range (callee n)) isOpeningParenToken
        = getTokenBefore toks (n_range arg) isOpeningParenToken \<longrightarrow>
      callExp toks rules n = Inr [(''CallExpression'', n)])"
  by (simp add: callExp_def call_rule_present as_sequence_def)


text \<open>
  The instances \<open>f<(A)>(x)\<close>, where the two tokens differ, and \<open>f(x)\<close>, where they
  are the same; in \<open>f((x))\<close> they differ as well.
\<close>

theorem callExp_type_argument_parens_witness:
  "is_tokenization typed_call_text typed_call_tokens
   \<and> getTokenAfter typed_call_tokens (n_range (callee typed_call_node)) isOpeningParenToken
       = Some (tok ''Punctuator'' ''('' 2 3)
   \<and> getTokenBefore typed_call_tokens (7, 8) isOpeningParenToken = Some (tok ''Punctuator'' ''('' 6 7)
   \<and> callExp typed_call_tokens newer_host typed_call_node
       = Inr [(''CallExpression'',
               typed_call_node\<lparr>arguments := [\<lparr>n_type = ''SequenceExpression'', n_range = (7, 8)\<rparr>]\<rparr>)]
   \<and> is_tokenization plain_call_text plain_call_tokens
   \<and> getTokenAfter plain_call_tokens (n_range (callee plain_call_node)) isOpeningParenToken
       = Some (tok ''Punctuator'' ''('' 1 2)
   \<and> getTokenBefore plain_call_tokens (2, 3) isOpeningParenToken = Some (tok ''Punctuator'' ''('' 1 2)
   \<and> callExp plain_call_tokens newer_host plain_call_node = Inr [(''CallExpression'', plain_call_node)]
   \<and> is_tokenization wrapped_call_text wrapped_call_tokens
   \<and> getTokenAfter wrapped_call_tokens (n_range (callee wrapped_call_node)) isOpeningParenToken
       = Some (tok ''Punctuator'' ''('' 1 2)
   \<and> getTokenBefore wrapped_call_tokens (3, 4) isOpeningParenToken = Some (tok ''Punctuator'' ''('' 2 3)
   \<and> callExp wrapped_call_tokens newer_host wrapped_call_node
       = Inr [(''CallExpression'',
               wrapped_call_node\<lparr>arguments := [\<lparr>n_type = ''SequenceExpression'', n_range = (3, 4)\<rparr>]\<rparr>)]"
proof -
  have t: "is_tokenization typed_call_text typed_call_tokens"
    "is_tokenization plain_call_text plain_call_tokens"
    "is_tokenization wrapped_call_text wrapped_call_tokens"
    by code_simp+
  have k: "''CallExpression'' \<in> set newer_host" by (simp add: newer_host_def)
  have a1: "arguments typed_call_node = [\<lparr>n_type = ''Identifier'', n_range = (7, 8)\<rparr>]"
    and c1: "\<not> isTypeAssertion (callee typed_call_node)"
    by (simp_all add: typed_call_node_def isTypeAssertion_def)
  have a2: "arguments plain_call_node = [\<lparr>n_type = ''Identifier'', n_range = (2, 3)\<rparr>]"
    and c2: "\<not> isTypeAssertion (callee plain_call_node)"
    by (simp_all add: plain_call_node_def isTypeAssertion_def)
  have a3: "arguments wrapped_call_node = [\<lparr>n_type = ''Identifier'', n_range = (3, 4)\<rparr>]"
    and c3: "\<not> isTypeAssertion (callee wrapped_call_node)"
    by (simp_all add: wrapped_call_node_def isTypeAssertion_def)
  have g1: "getTokenAfter typed_call_tokens (n_range (callee typed_call_node)) isOpeningParenToken
       = Some (tok ''Punctuator'' ''('' 2 3)"
    and g2: "getTokenBefore typed_call_tokens (7, 8) isOpeningParenToken = Some (tok ''Punctuator'' ''('' 6 7)"
    and g3: "getTokenAfter plain_call_tokens (n_range (callee plain_call_node)) isOpeningParenToken
       = Some (tok ''Punctuator'' ''('' 1 2)"
    and g4: "getTokenBefore plain_call_tokens (2, 3) isOpeningParenToken = Some (tok ''Punctuator'' ''('' 1 2)"
    and g5: "getTokenAfter wrapped_call_tokens (n_range (callee wrapped_call_node)) isOpeningParenToken
       = Some (tok ''Punctuator'' ''('' 1 2)"
    and g6: "getTokenBefore wrapped_call_tokens (3, 4) isOpeningParenToken = Some (tok ''Punctuator'' ''('' 2 3)"
    by code_simp+
  have d: "tok ''Punctuator'' ''('' 2 3 \<noteq> tok ''Punctuator'' ''('' 6 7"
    "tok ''Punctuator'' ''('' 1 2 \<noteq> tok ''Punctuator'' ''('' 2 3"
    by (simp_all add: tok_def)
  from callExp_type_argument_parens [of newer_host typed_call_node
      "\<lparr>n_type = ''Identifier'', n_range = (7, 8)\<rparr>" typed_call_tokens] k a1 c1 g1 g2 d
  have r1: "callExp typed_call_tokens newer_host typed_call_node
       = Inr [(''CallExpression'',
               typed_call_node\<lparr>arguments := [\<lparr>n_type = ''SequenceExpression'', n_range = (7, 8)\<rparr>]\<rparr>)]"
    by simp
  from callExp_type_argument_parens [of newer_host plain_call_node
      "\<lparr>n_type = ''Identifier'', n_range = (2, 3)\<rparr>" plain_call_tokens] k a2 c2 g3 g4
  have r2: "callExp plain_call_tokens newer_host plain_call_node = Inr [(''CallExpression'', plain_call_node)]"
    by simp
  from callExp_type_argument_parens [of newer_host wrapped_call_node
      "\<lparr>n_type = ''Identifier'', n_range = (3, 4)\<rparr>" wrapped_call_tokens] k a3 c3 g5 g6 d
  have r3: "callExp wrapped_call_tokens newer_host wrapped_call_node
       = Inr [(''CallExpression'',
               wrapped_call_node\<lparr>arguments := [\<lparr>n_type = ''SequenceExpression'', n_range = (3, 4)\<rparr>]\<rparr>)]"
    by simp
  from t g1 g2 g3 g4 g5 g6 r1 r2 r3 show ?thesis by simp
qed

text \<open>
  C8 (as amended). The override for \<open>for\<close> statements: when exactly one of the
  init, test and update clauses is a type assertion, the base rule is called with a
  copy of the node in which that clause is removed (\<open>null\<close>), not replaced by a
  stand-in, and the other clauses are as they were; when none is, it is called with
  the node itself. The base rule's hook on leaving the init clause is not called for
  an init clause that is a type assertion, and is called otherwise.
\<close>

theorem ForStatement_removes_assertion_clause:
  "(''ForStatement'' \<in> set rules \<and> is_assertion_clause (init n)
      \<and> \<not> is_assertion_clause (test n) \<and> \<not> is_assertion_clause (update n) \<longrightarrow>
      ForStatement rules n = Inr [(''ForStatement'', n\<lparr>init := None\<rparr>)])
   \<and> (''ForStatement'' \<in> set rules \<and> \<not> is_assertion_clause (init n)
      \<and> is_assertion_clause (test n) \<and> \<not> is_assertion_clause (update n) \<longrightarrow>
      ForStatement rules n = Inr [(''ForStatement'', n\<lparr>test := None\<rparr>)])
   \<and> (''ForStatement'' \<in> set rules \<and> \<not> is_assertion_clause (init n)
      \<and> \<not> is_assertion_clause (test n) \<and> is_assertion_clause (update n) \<longrightarrow>
      ForStatement rules n = Inr [(''ForStatement'', n\<lparr>update := None\<rparr>)])
   \<and> (''ForStatement'' \<in> set rules \<and> \<not> is_assertion_clause (init n)
      \<and> \<not> is_assertion_clause (test n) \<and> \<not> is_assertion_clause (update n) \<longrightarrow>
      ForStatement rules n = Inr [(''ForStatement'', n)])
   \<and> (isTypeAssertion c \<longrightarrow> ForStatement_init_exit rules c = Inr [])
   \<and> (''ForStatement > *.init:exit'' \<in> set rules \<and> \<not> isTypeAssertion c \<longrightarrow>
      ForStatement_init_exit rules c = Inr [(''ForStatement > *.init:exit'', c)])"
  by (simp add: ForStatement_def ForStatement_init_exit_def call_rule_present)

text \<open>
  The instances: \<open>for ((a as any); b; ) {}\<close>, headers with the type assertion as
  the test and as the update clause, and one without a type assertion.
\<close>

theorem ForStatement_removes_assertion_clause_witness:
  "ForStatement newer_host for_one_assertion
       = Inr [(''ForStatement'',
               \<lparr>init = None, test = Some \<lparr>n_type = ''Identifier'', n_range = (17, 18)\<rparr>, update = None\<rparr>)]
   \<and> ForStatement newer_host
         \<lparr>init = None, test = Some \<lparr>n_type = ''TSAsExpression'', n_range = (7, 15)\<rparr>, update = None\<rparr>
       = Inr [(''ForStatement'', \<lparr>init = None, test = None, update = None\<rparr>)]
   \<and> ForStatement newer_host
         \<lparr>init = None, test = None, update = Some \<lparr>n_type = ''TSTypeAssertion'', n_range = (8, 14)\<rparr>\<rparr>
       = Inr [(''ForStatement'', \<lparr>init = None, test = None, update = None\<rparr>)]
   \<and> ForStatement newer_host
         \<lparr>init = Some \<lparr>n_type = ''Identifier'', n_range = (5, 6)\<rparr>, test = None, update = None\<rparr>
       = Inr [(''ForStatement'',
               \<lparr>init = Some \<lparr>n_type = ''Identifier'', n_range = (5, 6)\<rparr>, test = None, update = None\<rparr>)]
   \<and> ForStatement_init_exit newer_host \<lparr>n_type = ''TSAsExpression'', n_range = (6, 14)\<rparr> = Inr []
   \<and> ForStatement_init_exit [''ForStatement'', ''ForStatement > *.init:exit'']
         \<lparr>n_type = ''Identifier'', n_range = (5, 6)\<rparr>
       = Inr [(''ForStatement > *.init:exit'', \<lparr>n_type = ''Identifier'', n_range = (5, 6)\<rparr>)]"
proof -
  have k: "''ForStatement'' \<in> set newer_host" by (simp add: newer_host_def)
  have c: "is_assertion_clause (init for_one_assertion)"
    "\<not> is_assertion_clause (test for_one_assertion)"
    "\<not> is_assertion_clause (update for_one_assertion)"
    "isTypeAssertion \<lparr>n_type = ''TSAsExpression'', n_range = (6, 14)\<rparr>"
    by (simp_all add: for_one_assertion_def is_assertion_clause_def isTypeAssertion_def)
  from ForStatement_removes_assertion_clause [of newer_host for_one_assertion
      "\<lparr>n_type = ''TSAsExpression'', n_range = (6, 14)\<rparr>"] k c
  have 1: "ForStatement newer_host for_one_assertion = Inr [(''ForStatement'', for_one_assertion\<lparr>init := None\<rparr>)]"
    and 5: "ForStatement_init_exit newer_host \<lparr>n_type = ''TSAsExpression'', n_range = (6, 14)\<rparr> = Inr []"
    by simp_all
  from ForStatement_removes_assertion_clause [of newer_host
      "\<lparr>init = None, test = Some \<lparr>n_type = ''TSAsExpression'', n_range = (7, 15)\<rparr>, update = None\<rparr>"] k
  have 2: "ForStatement newer_host
         \<lparr>init = None, test = Some \<lparr>n_type = ''TSAsExpression'', n_range = (7, 15)\<rparr>, update = None\<rparr>
       = Inr [(''ForStatement'', \<lparr>init = None, test = None, update = None\<rparr>)]"
    by (simp add: is_assertion_clause_def isTypeAssertion_def)
  from ForStatement_removes_assertion_clause [of newer_host
      "\<lparr>init = None, test = None, update = Some \<lparr>n_type = ''TSTypeAssertion'', n_range = (8, 14)\<rparr>\<rparr>"] k
  have 3: "ForStatement newer_host
         \<lparr>init = None, test = None, update = Some \<lparr>n_type = ''TSTypeAssertion'', n_range = (8, 14)\<rparr>\<rparr>
       = Inr [(''ForStatement'', \<lparr>init = None, test = None, update = None\<rparr>)]"
    by (simp add: is_assertion_clause_def isTypeAssertion_def)
  from ForStatement_removes_assertion_clause [of newer_host
      "\<lparr>init = Some \<lparr>n_type = ''Identifier'', n_range = (5, 6)\<rparr>, test = None, update = None\<rparr>"] k
  have 4: "ForStatement newer_host
         \<lparr>init = Some \<lparr>n_type = ''Identifier'', n_range = (5, 6)\<rparr>, test = None, update = None\<rparr>
       = Inr [(''ForStatement'',
               \<lparr>init = Some \<lparr>n_type = ''Identifier'', n_range = (5, 6)\<rparr>, test = None, update = None\<rparr>)]"
    by (simp add: is_assertion_clause_def isTypeAssertion_def)
  from ForStatement_removes_assertion_clause [of "[''ForStatement'', ''ForStatement > *.init:exit'']" _
      "\<lparr>n_type = ''Identifier'', n_range = (5, 6)\<rparr>"]
  have 6: "ForStatement_init_exit [''ForStatement'', ''ForStatement > *.init:exit'']
         \<lparr>n_type = ''Identifier'', n_range = (5, 6)\<rparr>
       = Inr [(''ForStatement > *.init:exit'', \<lparr>n_type = ''Identifier'', n_range = (5, 6)\<rparr>)]"
    by (simp add: isTypeAssertion_def)
  from 1 2 3 4 5 6 show ?thesis by (simp add: for_one_assertion_def)
qed

text \<open>
  C8 as stated fails. For \<open>for ((a as any); (b as any); ) {}\<close> only the init clause
  is taken out and the test clause reaches the base rule as the type assertion it
  is; and already for one type-assertion clause the clause is removed, where the
  claim has it replaced by the stand-in.
\<close>

theorem ForStatement_counterexample:
  "ForStatement newer_host for_two_assertions
     = Inr [(''ForStatement'',
             \<lparr>init = None, test = Some \<lparr>n_type = ''TSAsExpression'', n_range = (18, 26)\<rparr>, update = None\<rparr>)]
   \<and> ForStatement_spec newer_host for_two_assertions
     = Inr [(''ForStatement'',
             \<lparr>init = Some \<lparr>n_type = ''SequenceExpression'', n_range = (6, 14)\<rparr>,
              test = Some \<lparr>n_type = ''SequenceExpression'', n_range = (18, 26)\<rparr>, update = None\<rparr>)]
   \<and> ForStatement newer_host for_two_assertions \<noteq> ForStatement_spec newer_host for_two_assertions
   \<and> ForStatement newer_host for_one_assertion \<noteq> ForStatement_spec newer_host for_one_assertion"
  by code_simp


lemma create_combined:
  "\<not> (''ForInStatement'' \<in> set rules \<and> ''ForOfStatement'' \<in> set rules) \<Longrightarrow>
   create rules ''ForInStatement, ForOfStatement'' = Some (Override ''ForInStatement, ForOfStatement'')
   \<and> create rules ''ForInStatement'' \<noteq> Some (Override ''ForInStatement'')
   \<and> create rules ''ForOfStatement'' \<noteq> Some (Override ''ForOfStatement'')"
  by (auto simp: create_def overrides_def)

lemma create_per_kind:
  "''ForInStatement'' \<in> set rules \<and> ''ForOfStatement'' \<in> set rules \<Longrightarrow>
   create rules ''ForInStatement'' = Some (Override ''ForInStatement'')
   \<and> create rules ''ForOfStatement'' = Some (Override ''ForOfStatement'')
   \<and> create rules ''ForInStatement, ForOfStatement'' \<noteq> Some (Override ''ForInStatement, ForOfStatement'')"
  by (auto simp: create_def overrides_def)

lemma create_absent:
  "\<not> (''ForInStatement'' \<in> set rules \<and> ''ForOfStatement'' \<in> set rules) \<Longrightarrow>
   k = ''ForInStatement'' \<or> k = ''ForOfStatement'' \<Longrightarrow> k \<notin> set rules \<Longrightarrow> create rules k = None"
  by (auto simp: create_def overrides_def)

lemma visit_older:
  assumes "''ForInStatement'' \<notin> set rules" and "''ForOfStatement'' \<notin> set rules"
    and "x_type n = ''ForInStatement'' \<or> x_type n = ''ForOfStatement''"
  shows "visit rules n = ForInStatement_ForOfStatement rules n"
proof -
  have c: "create rules ''ForInStatement, ForOfStatement'' = Some (Override ''ForInStatement, ForOfStatement'')"
    using create_combined [of rules] assms by simp
  have "create rules (x_type n) = None"
    using create_absent [of rules "x_type n"] assms by auto
  with c show ?thesis
    by (simp add: visit_def run_handler_def and_then_Nil)
qed

lemma and_then_Nil_right: "and_then r (Inr []) = r"
  by (simp add: and_then_def split: sum.splits)

lemma visit_newer:
  assumes "''ForInStatement'' \<in> set rules" and "''ForOfStatement'' \<in> set rules"
    and "''ForInStatement, ForOfStatement'' \<notin> set rules"
  shows "x_type n = ''ForInStatement'' \<Longrightarrow> visit rules n = ForInStatement rules n"
    and "x_type n = ''ForOfStatement'' \<Longrightarrow> visit rules n = ForOfStatement rules n"
proof -
  have c: "create rules ''ForInStatement, ForOfStatement'' = None"
    using assms by (auto simp: create_def overrides_def)
  from create_per_kind [of rules] assms
  have k: "create rules ''ForInStatement'' = Some (Override ''ForInStatement'')"
    "create rules ''ForOfStatement'' = Some (Override ''ForOfStatement'')" by simp_all
  show "x_type n = ''ForInStatement'' \<Longrightarrow> visit rules n = ForInStatement rules n"
    using c k by (simp add: visit_def run_handler_def and_then_Nil_right)
  show "x_type n = ''ForOfStatement'' \<Longrightarrow> visit rules n = ForOfStatement rules n"
    using c k by (simp add: visit_def run_handler_def and_then_Nil_right)
qed

text \<open>
  C9 (as amended). When the base rule lacks one of the callbacks \<open>ForInStatement\<close>
  and \<open>ForOfStatement\<close>, the listener has an override under the combined selector
  and none under the two kinds; when it has both, the listener has an override under
  each kind and none under the combined selector. On an older host (no callback per
  kind, one under the combined selector) visiting a \<open>for-in\<close> or \<open>for-of\<close> node
  does not throw, and a right-hand side that is a type assertion is substituted: the
  base callback gets a copy of kind \<open>ForOfStatement\<close> whose right-hand side has the
  type \<open>SequenceExpression\<close>. On a newer host (a callback per kind) a \<open>for-in\<close>
  whose right-hand side is a type assertion is skipped outright (no call of the base
  rule), and a \<open>for-of\<close> is handled by substitution.
\<close>

theorem for_in_of_overrides:
  "(\<not> (''ForInStatement'' \<in> set rules \<and> ''ForOfStatement'' \<in> set rules) \<longrightarrow>
      create rules ''ForInStatement, ForOfStatement'' = Some (Override ''ForInStatement, ForOfStatement'')
      \<and> create rules ''ForInStatement'' \<noteq> Some (Override ''ForInStatement'')
      \<and> create rules ''ForOfStatement'' \<noteq> Some (Override ''ForOfStatement''))
   \<and> (''ForInStatement'' \<in> set rules \<and> ''ForOfStatement'' \<in> set rules \<longrightarrow>
      create rules ''ForInStatement'' = Some (Override ''ForInStatement'')
      \<and> create rules ''ForOfStatement'' = Some (Override ''ForOfStatement'')
      \<and> create rules ''ForInStatement, ForOfStatement'' \<noteq> Some (Override ''ForInStatement, ForOfStatement''))
   \<and> (''ForInStatement'' \<notin> set rules \<and> ''ForOfStatement'' \<notin> set rules
        \<and> ''ForInStatement, ForOfStatement'' \<in> set rules
        \<and> (x_type n = ''ForInStatement'' \<or> x_type n = ''ForOfStatement'') \<longrightarrow>
      visit rules n
        = Inr [(''ForInStatement, ForOfStatement'',
                if isTypeAssertion (x_right n)
                then n\<lparr>x_type := ''ForOfStatement'',
                       x_right := (x_right n)\<lparr>n_type := ''SequenceExpression''\<rparr>\<rparr>
                else n)])
   \<and> (''ForInStatement'' \<in> set rules \<and> ''ForOfStatement'' \<in> set rules
        \<and> ''ForInStatement, ForOfStatement'' \<notin> set rules \<and> isTypeAssertion (x_right n) \<longrightarrow>
      (x_type n = ''ForInStatement'' \<longrightarrow> visit rules n = Inr [])
      \<and> (x_type n = ''ForOfStatement'' \<longrightarrow>
          visit rules n
            = Inr [(''ForOfStatement'',
                    n\<lparr>x_type := ''ForOfStatement'',
                      x_right := (x_right n)\<lparr>n_type := ''SequenceExpression''\<rparr>\<rparr>)]))"
proof (intro conjI impI)
  assume "\<not> (''ForInStatement'' \<in> set rules \<and> ''ForOfStatement'' \<in> set rules)"
  from create_combined [OF this]
  show "create rules ''ForInStatement, ForOfStatement'' = Some (Override ''ForInStatement, ForOfStatement'')"
    and "create rules ''ForInStatement'' \<noteq> Some (Override ''ForInStatement'')"
    and "create rules ''ForOfStatement'' \<noteq> Some (Override ''ForOfStatement'')"
    by simp_all
next
  assume "''ForInStatement'' \<in> set rules \<and> ''ForOfStatement'' \<in> set rules"
  from create_per_kind [OF this]
  show "create rules ''ForInStatement'' = Some (Override ''ForInStatement'')"
    and "create rules ''ForOfStatement'' = Some (Override ''ForOfStatement'')"
    and "create rules ''ForInStatement, ForOfStatement'' \<noteq> Some (Override ''ForInStatement, ForOfStatement'')"
    by simp_all
next
  assume a: "''ForInStatement'' \<notin> set rules \<and> ''ForOfStatement'' \<notin> set rules
        \<and> ''ForInStatement, ForOfStatement'' \<in> set rules
        \<and> (x_type n = ''ForInStatement'' \<or> x_type n = ''ForOfStatement'')"
  then have "visit rules n = ForInStatement_ForOfStatement rules n"
    using visit_older [of rules n] by blast
  with a show "visit rules n
        = Inr [(''ForInStatement, ForOfStatement'',
                if isTypeAssertion (x_right n)
                then n\<lparr>x_type := ''ForOfStatement'',
                       x_right := (x_right n)\<lparr>n_type := ''SequenceExpression''\<rparr>\<rparr>
                else n)]"
    by (simp add: ForInStatement_ForOfStatement_def call_rule_present as_sequence_def)
next
  assume a: "''ForInStatement'' \<in> set rules \<and> ''ForOfStatement'' \<in> set rules
        \<and> ''ForInStatement, ForOfStatement'' \<notin> set rules \<and> isTypeAssertion (x_right n)"
    and t: "x_type n = ''ForInStatement''"
  from a t visit_newer(1) [of rules n] show "visit rules n = Inr []"
    by (simp add: ForInStatement_def)
next
  assume a: "''ForInStatement'' \<in> set rules \<and> ''ForOfStatement'' \<in> set rules
        \<and> ''ForInStatement, ForOfStatement'' \<notin> set rules \<and> isTypeAssertion (x_right n)"
    and t: "x_type n = ''ForOfStatement''"
  from a t visit_newer(2) [of rules n]
  show "visit rules n
            = Inr [(''ForOfStatement'',
                    n\<lparr>x_type := ''ForOfStatement'',
                      x_right := (x_right n)\<lparr>n_type := ''SequenceExpression''\<rparr>\<rparr>)]"
    by (simp add: ForOfStatement_def call_rule_present as_sequence_def)
qed

text \<open>The instances \<open>for (k in (o as any)) {}\<close> and \<open>for (k of (o as any)) {}\<close> on both hosts.\<close>

theorem for_in_of_overrides_witness:
  "''ForInStatement'' \<notin> set older_host \<and> ''ForOfStatement'' \<notin> set older_host
   \<and> ''ForInStatement, ForOfStatement'' \<in> set older_host
   \<and> create older_host ''ForInStatement, ForOfStatement'' = Some (Override ''ForInStatement, ForOfStatement'')
   \<and> visit older_host for_in_assertion
       = Inr [(''ForInStatement, ForOfStatement'',
               \<lparr>x_type = ''ForOfStatement'',
                x_right = \<lparr>n_type = ''SequenceExpression'', n_range = (11, 19)\<rparr>\<rparr>)]
   \<and> ''ForInStatement'' \<in> set newer_host \<and> ''ForOfStatement'' \<in> set newer_host
   \<and> ''ForInStatement, ForOfStatement'' \<notin> set newer_host
   \<and> create newer_host ''ForInStatement'' = Some (Override ''ForInStatement'')
   \<and> visit newer_host for_in_assertion = Inr []
   \<and> visit newer_host for_of_assertion
       = Inr [(''ForOfStatement'',
               \<lparr>x_type = ''ForOfStatement'',
                x_right = \<lparr>n_type = ''SequenceExpression'', n_range = (11, 19)\<rparr>\<rparr>)]"
proof -
  have o: "''ForInStatement'' \<notin> set older_host" "''ForOfStatement'' \<notin> set older_host"
    "''ForInStatement, ForOfStatement'' \<in> set older_host"
    by (simp_all add: older_host_def)
  have n: "''ForInStatement'' \<in> set newer_host" "''ForOfStatement'' \<in> set newer_host"
    "''ForInStatement, ForOfStatement'' \<notin> set newer_host"
    by (simp_all add: newer_host_def)
  have t: "x_type for_in_assertion = ''ForInStatement''" "isTypeAssertion (x_right for_in_assertion)"
    "x_type for_of_assertion = ''ForOfStatement''" "isTypeAssertion (x_right for_of_assertion)"
    by (simp_all add: for_in_assertion_def for_of_assertion_def isTypeAssertion_def)
  from for_in_of_overrides [of older_host for_in_assertion] o t
  have 1: "create older_host ''ForInStatement, ForOfStatement'' = Some (Override ''ForInStatement, ForOfStatement'')"
    and 2: "visit older_host for_in_assertion
       = Inr [(''ForInStatement, ForOfStatement'',
               for_in_assertion\<lparr>x_type := ''ForOfStatement'',
                 x_right := (x_right for_in_assertion)\<lparr>n_type := ''SequenceExpression''\<rparr>\<rparr>)]"
    by simp_all
  from for_in_of_overrides [of newer_host for_in_assertion] n t
  have 3: "create newer_host ''ForInStatement'' = Some (Override ''ForInStatement'')"
    and 4: "visit newer_host for_in_assertion = Inr []"
    by simp_all
  from for_in_of_overrides [of newer_host for_of_assertion] n t
  have 5: "visit newer_host for_of_assertion
       = Inr [(''ForOfStatement'',
               for_of_assertion\<lparr>x_type := ''ForOfStatement'',
                 x_right := (x_right for_of_assertion)\<lparr>n_type := ''SequenceExpression''\<rparr>\<rparr>)]"
    by simp
  from o n 1 2 3 4 5 show ?thesis
    by (simp add: for_in_assertion_def for_of_assertion_def)
qed

text \<open>
  C9 as stated fails: on the older host the right-hand side of
  \<open>for (k in (o as any)) {}\<close> is substituted, not skipped, and it is on the newer
  host that the statement is skipped outright. A base rule with neither the pair of
  callbacks nor the combined one makes the combined override throw.
\<close>

theorem for_in_of_counterexample:
  "visit older_host for_in_assertion
       = Inr [(''ForInStatement, ForOfStatement'',
               \<lparr>x_type = ''ForOfStatement'',
                x_right = \<lparr>n_type = ''SequenceExpression'', n_range = (11, 19)\<rparr>\<rparr>)]
   \<and> visit older_host for_in_assertion \<noteq> Inr []
   \<and> visit newer_host for_in_assertion = Inr []
   \<and> visit [''ForInStatement''] for_of_assertion = Inl TypeError"
  by code_simp

section \<open>jsx-newline: properties\<close>

lemma check_element_report:
  assumes "r \<in> set (check_element options0 element index elements)"
  shows "index + 2 < length elements
    \<and> (j_type element = ''JSXElement'' \<or> j_type element = ''JSXExpressionContainer'')
    \<and> (j_type (elements ! (index + 1)) = ''Literal'' \<or> j_type (elements ! (index + 1)) = ''JSXText'')
    \<and> jsx_node r = elements ! (index + 2)
    \<and> \<not> isBlockCommentInCurlyBraces element"
  using assms
  by (auto simp: check_element_def element_at_def Let_def split: if_splits option.splits)

lemma check_element_last:
  "index + 1 = length elements \<Longrightarrow> check_element options0 element index elements = []"
  by (simp add: check_element_def element_at_def Let_def)

lemma check_element_block_comment:
  "isBlockCommentInCurlyBraces element \<Longrightarrow> check_element options0 element index elements = []"
  by (simp add: check_element_def Let_def split: option.splits)

lemma Program_exit_report:
  assumes "r \<in> set (Program_exit options0 parents)"
  shows "\<exists>p i. p \<in> set parents \<and> i < length (children p)
           \<and> r \<in> set (check_element options0 (children p ! i) i (children p))"
  using assms by (fastforce simp: Program_exit_def forEach_children_def)

text \<open>
  C10. Every report of the jsx-newline rule comes from a child that is a JSX element
  or expression container, is followed by a first adjacent sibling of type
  \<open>Literal\<close> or \<open>JSXText\<close> and by a second adjacent sibling, and whose source text
  does not start as a block comment in curly braces; the report is located at the
  second adjacent sibling. So the last child of a parent produces no report, and
  neither does an element whose text starts as a block comment in curly braces.
\<close>

theorem jsx_newline_reports:
  "(r \<in> set (Program_exit options0 parents) \<longrightarrow>
      (\<exists>p i. p \<in> set parents \<and> i + 2 < length (children p)
         \<and> (j_type (children p ! i) = ''JSXElement''
              \<or> j_type (children p ! i) = ''JSXExpressionContainer'')
         \<and> (j_type (children p ! (i + 1)) = ''Literal''
              \<or> j_type (children p ! (i + 1)) = ''JSXText'')
         \<and> jsx_node r = children p ! (i + 2)
         \<and> \<not> isBlockCommentInCurlyBraces (children p ! i)))
   \<and> (index + 1 = length elements \<longrightarrow>
        check_element options0 (elements ! index) index elements = [])
   \<and> (isBlockCommentInCurlyBraces element \<longrightarrow>
        check_element options0 element index elements = [])"
proof (intro conjI impI)
  assume "r \<in> set (Program_exit options0 parents)"
  from Program_exit_report [OF this] obtain p i
    where p: "p \<in> set parents"
      and r: "r \<in> set (check_element options0 (children p ! i) i (children p))"
    by blast
  from check_element_report [OF r] p
  show "\<exists>p i. p \<in> set parents \<and> i + 2 < length (children p)
         \<and> (j_type (children p ! i) = ''JSXElement''
              \<or> j_type (children p ! i) = ''JSXExpressionContainer'')
         \<and> (j_type (children p ! (i + 1)) = ''Literal''
              \<or> j_type (children p ! (i + 1)) = ''JSXText'')
         \<and> jsx_node r = children p ! (i + 2)
         \<and> \<not> isBlockCommentInCurlyBraces (children p ! i)"
    by blast
next
  assume "index + 1 = length elements"
  then show "check_element options0 (elements ! index) index elements = []"
    by (rule check_element_last)
next
  assume "isBlockCommentInCurlyBraces element"
  then show "check_element options0 element index elements = []"
    by (rule check_element_block_comment)
qed

text \<open>
  The instance: the children \<open><a/>\<close>, a line break, \<open><b/>\<close> under the default
  options give one report, at \<open><b/>\<close>; the last child gives none, and with the
  comment container \<open>{/* c */}\<close> in place of \<open><a/>\<close> there is none for it.
\<close>

theorem jsx_newline_reports_witness:
  "Program_exit None [jsx_div]
     = [\<lparr>jsx_node = jsx_b, jsx_messageId = ''require'', replaceText = (jsx_nl, [newline, newline])\<rparr>]
   \<and> (\<exists>p i. p \<in> set [jsx_div] \<and> i + 2 < length (children p)
         \<and> (j_type (children p ! (i + 1)) = ''Literal''
              \<or> j_type (children p ! (i + 1)) = ''JSXText'')
         \<and> jsx_b = children p ! (i + 2))
   \<and> (2::nat) + 1 = length (children jsx_div)
   \<and> check_element None (children jsx_div ! 2) 2 (children jsx_div) = []
   \<and> isBlockCommentInCurlyBraces jsx_comment
   \<and> check_element None jsx_comment 0 [jsx_comment, jsx_nl, jsx_b] = []"
proof -
  let ?r = "\<lparr>jsx_node = jsx_b, jsx_messageId = ''require'', replaceText = (jsx_nl, [newline, newline])\<rparr>"
  have e: "Program_exit None [jsx_div] = [?r]"
    by code_simp
  have l: "(2::nat) + 1 = length (children jsx_div)"
    by (simp add: jsx_div_def)
  have b: "isBlockCommentInCurlyBraces jsx_comment"
    by code_simp
  from e have m: "?r \<in> set (Program_exit None [jsx_div])" by simp
  from jsx_newline_reports [of ?r None "[jsx_div]" 2 "children jsx_div" jsx_comment] m l b
  have "\<exists>p i. p \<in> set [jsx_div] \<and> i + 2 < length (children p)
         \<and> (j_type (children p ! (i + 1)) = ''Literal''
              \<or> j_type (children p ! (i + 1)) = ''JSXText'')
         \<and> jsx_b = children p ! (i + 2)"
    and "check_element None (children jsx_div ! 2) 2 (children jsx_div) = []"
    by auto
  moreover
  from jsx_newline_reports [of ?r None "[jsx_div]" 0 "[jsx_comment, jsx_nl, jsx_b]" jsx_comment] b
  have "check_element None jsx_comment 0 [jsx_comment, jsx_nl, jsx_b] = []"
    by simp
  ultimately show ?thesis using e l b by simp
qed

end
